theory Spec2Isabelle
  imports Complex_Main "HOL-Library.AList"
begin

section \<open>Data model of GameCanvas.tsx\<close>

text \<open>
  JavaScript numbers are modelled as reals: the properties below only use comparison,
  negation, copying and clamping, so rounding plays no part in them (NaN is left out).
  Matter bodies are objects shared between the engine world and the tracking arrays of
  the component, so they live in a store keyed by the body id Matter assigns
  (\<open>body.id\<close>); a reference to a body is its id. Of a body, the fields the handlers
  read or write are kept; its shape, density, friction and render options are not.
\<close>

record vec =
  X :: real
  Y :: real

record body =
  label :: string
  position :: vec
  velocity :: vec
  force :: vec
  isSensor :: bool

datatype GameState = playing | gameOver | won

datatype MonsterAIKind = patrol | flying

text \<open>\<open>interface MonsterAIState\<close>; \<open>range\<close> is spelt \<open>rangeX\<close>, \<open>dir\<close> is 1 or -1.\<close>

record MonsterAIState =
  kind :: MonsterAIKind
  originX :: real
  originY :: real
  rangeX :: real
  speed :: real
  dir :: int
  chaseRadius :: "real option"
  hoverAmp :: "real option"
  hoverFreq :: "real option"

text \<open>The anonymous record type of \<open>movingPlatformAIRef\<close>.\<close>

record PlatformAI =
  pfOriginX :: real
  pfRange :: real
  pfSpeed :: real
  pfDir :: int

record GameCanvasProps =
  widthProp :: "real option"
  heightProp :: "real option"
  jumpStrengthProp :: "real option"
  jumpHeightProp :: "real option"

text \<open>
  The refs and React state of the component, the engine world (\<open>bodies\<close>, \<open>world\<close>,
  \<open>nextId\<close> for Matter's id counter), and the two bodies \<open>torso\<close> and \<open>head\<close> that the
  handlers registered by the setup effect close over. \<open>JS Map\<close>s are association lists
  (insertion ordered, one entry per key). \<open>pendingGameState\<close> holds the \<open>setGameState\<close>
  calls React has not rendered yet.
\<close>

record game =
  bodies :: "nat \<Rightarrow> body"
  world :: "nat list"
  nextId :: nat
  torso :: nat
  head :: nat
  playerRef :: "nat option"
  playerHeadRef :: "nat option"
  playerGroundedRef :: bool
  playerFacingRef :: int
  keysRef :: "string \<Rightarrow> bool"
  cameraXRef :: real
  monstersRef :: "nat list"
  monsterAIRef :: "(nat \<times> MonsterAIState) list"
  monsterStyleSeedRef :: "(nat \<times> nat) list"
  projectilesRef :: "nat list"
  movingPlatformRef :: "nat option"
  movingPlatformAIRef :: "PlatformAI option"
  jumpStrengthRef :: real
  jumpWasDownRef :: bool
  viewportWRef :: real
  viewportHRef :: real
  gameStateRef :: GameState
  gameState :: GameState
  pendingGameState :: "GameState list"

text \<open>
  What one engine update takes from outside the component: the bodies hit by the ground
  ray (\<open>Matter.Query.ray\<close>), \<open>engine.timing.timestamp\<close>, \<open>engine.gravity.scale\<close>, the
  \<open>mass\<close> Matter derives for each body from its density and shape, the engine's own
  integration step on the bodies, and the pairs \<open>(bodyA, bodyB)\<close> of the
  \<open>collisionStart\<close> event.
\<close>

record frame =
  rayHits :: "nat list"
  timestamp :: real
  gravityScale :: real
  massOf :: "nat \<Rightarrow> real"
  physics :: "(nat \<Rightarrow> body) \<Rightarrow> (nat \<Rightarrow> body)"
  pairs :: "(nat \<times> nat) list"

section \<open>Constants and helpers\<close>

definition WORLD_HEIGHT :: real where "WORLD_HEIGHT = 600"
definition GROUND_HEIGHT :: real where "GROUND_HEIGHT = 50"
definition PLAYER_WIDTH :: real where "PLAYER_WIDTH = 40"
definition PLAYER_HEIGHT :: real where "PLAYER_HEIGHT = 60"
definition LEVEL_LENGTH :: real where "LEVEL_LENGTH = 8000"
definition defaultJumpStrength :: real where "defaultJumpStrength = 22"
definition maxRunSpeed :: real where "maxRunSpeed = 9.5"
definition maxAirSpeed :: real where "maxAirSpeed = 10.5"

text \<open>\<open>const clamp = (v, min, max) => Math.max(min, Math.min(v, max))\<close>\<close>

definition clamp :: "real \<Rightarrow> real \<Rightarrow> real \<Rightarrow> real" where
  "clamp v mn mx = max mn (min v mx)"

text \<open>\<open>Math.hypot(dx, dy)\<close>\<close>

definition hypot :: "real \<Rightarrow> real \<Rightarrow> real" where
  "hypot dx dy = sqrt (dx\<^sup>2 + dy\<^sup>2)"

subsection \<open>The Matter calls the component makes\<close>

definition updBody :: "nat \<Rightarrow> (body \<Rightarrow> body) \<Rightarrow> game \<Rightarrow> game" where
  "updBody b f s = s\<lparr>bodies := (bodies s)(b := f (bodies s b))\<rparr>"

text \<open>\<open>Matter.Body.setVelocity(b, v)\<close>\<close>

definition setVelocity :: "nat \<Rightarrow> vec \<Rightarrow> game \<Rightarrow> game" where
  "setVelocity b v s = updBody b (\<lambda>bd. bd\<lparr>velocity := v\<rparr>) s"

text \<open>\<open>Matter.Body.applyForce(b, b.position, f)\<close>: the force is accumulated for the next step.\<close>

definition applyForce :: "nat \<Rightarrow> vec \<Rightarrow> game \<Rightarrow> game" where
  "applyForce b f s =
     updBody b (\<lambda>bd. bd\<lparr>force := \<lparr>X = X (force bd) + X f, Y = Y (force bd) + Y f\<rparr>\<rparr>) s"

text \<open>\<open>Matter.Bodies.rectangle/circle\<close>: a new body under the next free id.\<close>

definition createBody :: "body \<Rightarrow> game \<Rightarrow> nat \<times> game" where
  "createBody bd s = (nextId s, s\<lparr>bodies := (bodies s)(nextId s := bd), nextId := Suc (nextId s)\<rparr>)"

text \<open>\<open>Matter.World.add\<close> and \<open>Matter.World.remove\<close> on \<open>engine.world\<close>.\<close>

definition worldAdd :: "nat list \<Rightarrow> game \<Rightarrow> game" where
  "worldAdd bs s = s\<lparr>world := world s @ bs\<rparr>"

definition worldRemove :: "nat \<Rightarrow> game \<Rightarrow> game" where
  "worldRemove b s = s\<lparr>world := remove1 b (world s)\<rparr>"

section \<open>Effects on props and React state\<close>

text \<open>
  The destructured prop \<open>jumpStrength = 22\<close> and the effect
  \<open>next = typeof jumpHeight === 'number' ? jumpHeight : jumpStrength\<close>.
\<close>

definition jumpStrengthOf :: "GameCanvasProps \<Rightarrow> real" where
  "jumpStrengthOf p = (case jumpStrengthProp p of None \<Rightarrow> defaultJumpStrength | Some v \<Rightarrow> v)"

definition effectiveJump :: "GameCanvasProps \<Rightarrow> real" where
  "effectiveJump p = (case jumpHeightProp p of Some h \<Rightarrow> h | None \<Rightarrow> jumpStrengthOf p)"

definition jumpStrengthEffect :: "GameCanvasProps \<Rightarrow> game \<Rightarrow> game" where
  "jumpStrengthEffect p s = s\<lparr>jumpStrengthRef := effectiveJump p\<rparr>"

text \<open>\<open>setGameState(g)\<close> queues the value; the handler that called it goes on running.\<close>

definition setGameState :: "GameState \<Rightarrow> game \<Rightarrow> game" where
  "setGameState g s = s\<lparr>pendingGameState := pendingGameState s @ [g]\<rparr>"

text \<open>\<open>useEffect(() => { gameStateRef.current = gameState }, [gameState])\<close>\<close>

definition gameStateEffect :: "game \<Rightarrow> game" where
  "gameStateEffect s = s\<lparr>gameStateRef := gameState s\<rparr>"

text \<open>
  React's commit between two engine updates: the queued values are applied in order (the
  last one stays), and the effect above runs when \<open>gameState\<close> changed.
\<close>

definition commit :: "game \<Rightarrow> game" where
  "commit s =
     (let g = (if pendingGameState s = [] then gameState s else last (pendingGameState s));
          s1 = s\<lparr>gameState := g, pendingGameState := []\<rparr>
      in if g \<noteq> gameState s then gameStateEffect s1 else s1)"

section \<open>Keyboard handlers\<close>

definition handleKeyDown :: "string \<Rightarrow> game \<Rightarrow> game" where
  "handleKeyDown code s = s\<lparr>keysRef := (keysRef s)(code := True)\<rparr>"

definition handleKeyUp :: "string \<Rightarrow> game \<Rightarrow> game" where
  "handleKeyUp code s = s\<lparr>keysRef := (keysRef s)(code := False)\<rparr>"

section \<open>Player controller (the first beforeUpdate handler)\<close>

text \<open>\<open>createProjectile\<close>\<close>

definition createProjectile :: "game \<Rightarrow> game" where
  "createProjectile s =
     (case playerRef s of
        None \<Rightarrow> s
      | Some player \<Rightarrow>
          (let facing = playerFacingRef s;
               p = position (bodies s player);
               (projectile, s1) = createBody
                  \<lparr>label = ''projectile'',
                   position = \<lparr>X = X p + real_of_int facing * PLAYER_WIDTH * 0.6, Y = Y p\<rparr>,
                   velocity = \<lparr>X = 0, Y = 0\<rparr>,
                   force = \<lparr>X = 0, Y = 0\<rparr>,
                   isSensor = False\<rparr> s;
               s2 = setVelocity projectile \<lparr>X = real_of_int facing * 15, Y = 0\<rparr> s1;
               s3 = worldAdd [projectile] s2
           in s3\<lparr>projectilesRef := projectilesRef s3 @ [projectile]\<rparr>))"

text \<open>Fire: \<open>if (keysRef.current['KeyK']) { createProjectile(); keysRef.current['KeyK'] = false }\<close>\<close>

definition fireStep :: "game \<Rightarrow> game" where
  "fireStep s =
     (if keysRef s ''KeyK''
      then (let s1 = createProjectile s in s1\<lparr>keysRef := (keysRef s1)(''KeyK'' := False)\<rparr>)
      else s)"

text \<open>The \<open>rayHits.some(...)\<close> test of the ground check.\<close>

definition groundHit :: "game \<Rightarrow> nat \<Rightarrow> nat \<Rightarrow> bool" where
  "groundHit s player b =
     (if b = player then False
      else if playerHeadRef s = Some b then False
      else if isSensor (bodies s b) then False
      else if label (bodies s b) = ''monster'' \<or> label (bodies s b) = ''boundary'' then False
      else True)"

definition groundStep :: "nat \<Rightarrow> frame \<Rightarrow> game \<Rightarrow> game" where
  "groundStep player fr s = s\<lparr>playerGroundedRef := list_ex (groundHit s player) (rayHits fr)\<rparr>"

definition leftDown :: "game \<Rightarrow> bool" where
  "leftDown s = (keysRef s ''ArrowLeft'' \<or> keysRef s ''KeyA'')"

definition rightDown :: "game \<Rightarrow> bool" where
  "rightDown s = (keysRef s ''ArrowRight'' \<or> keysRef s ''KeyD'')"

definition axis :: "game \<Rightarrow> int" where
  "axis s = (if rightDown s then 1 else 0) + (if leftDown s then - 1 else 0)"

definition maxSpeed :: "game \<Rightarrow> real" where
  "maxSpeed s = (if playerGroundedRef s then maxRunSpeed else maxAirSpeed)"

definition accelPerMass :: "game \<Rightarrow> real" where
  "accelPerMass s = (if playerGroundedRef s then 0.0032 else 0.0038)"

definition brakePerMass :: "game \<Rightarrow> real" where
  "brakePerMass s = (if playerGroundedRef s then 0.0046 else 0.0018)"

text \<open>Facing: the last intentional direction, else a strong velocity.\<close>

definition facingStep :: "nat \<Rightarrow> game \<Rightarrow> game" where
  "facingStep player s =
     (let s1 = (if axis s = 1 then s\<lparr>playerFacingRef := 1\<rparr> else s);
          s2 = (if axis s = - 1 then s1\<lparr>playerFacingRef := - 1\<rparr> else s1)
      in if axis s = 0
         then (let s3 = (if X (velocity (bodies s2 player)) > 0.35
                         then s2\<lparr>playerFacingRef := 1\<rparr> else s2)
               in if X (velocity (bodies s3 player)) < - 0.35
                  then s3\<lparr>playerFacingRef := - 1\<rparr> else s3)
         else s2)"

text \<open>Acceleration force, braking force, or a dead stop on the ground.\<close>

definition moveStep :: "nat \<Rightarrow> frame \<Rightarrow> game \<Rightarrow> game" where
  "moveStep player fr s =
     (if axis s \<noteq> 0
      then applyForce player
             \<lparr>X = real_of_int (axis s) * accelPerMass s * massOf fr player, Y = 0\<rparr> s
      else (let v = X (velocity (bodies s player))
            in if \<bar>v\<bar> > 0.02
               then applyForce player \<lparr>X = - v * brakePerMass s * massOf fr player, Y = 0\<rparr> s
               else if playerGroundedRef s
               then setVelocity player \<lparr>X = 0, Y = Y (velocity (bodies s player))\<rparr> s
               else s))"

text \<open>The velocity clamp.\<close>

definition clampStep :: "nat \<Rightarrow> game \<Rightarrow> game" where
  "clampStep player s =
     (if X (velocity (bodies s player)) > maxSpeed s
      then setVelocity player \<lparr>X = maxSpeed s, Y = Y (velocity (bodies s player))\<rparr> s
      else if X (velocity (bodies s player)) < - maxSpeed s
      then setVelocity player \<lparr>X = - maxSpeed s, Y = Y (velocity (bodies s player))\<rparr> s
      else s)"

text \<open>Jump: one-shot on the press edge, only when grounded.\<close>

definition jumpDown :: "game \<Rightarrow> bool" where
  "jumpDown s = (keysRef s ''ArrowUp'' \<or> keysRef s ''Space'' \<or> keysRef s ''KeyW'')"

definition jumpPressed :: "game \<Rightarrow> bool" where
  "jumpPressed s = (jumpDown s \<and> \<not> jumpWasDownRef s)"

definition jumpStep :: "nat \<Rightarrow> game \<Rightarrow> game" where
  "jumpStep player s =
     (let pressed = jumpPressed s;
          s1 = s\<lparr>jumpWasDownRef := jumpDown s\<rparr>
      in if pressed \<and> playerGroundedRef s1
         then setVelocity player
                \<lparr>X = X (velocity (bodies s1 player)), Y = - jumpStrengthRef s1\<rparr> s1
         else s1)"

text \<open>Everything up to and including the clamp, then the whole handler.\<close>

definition movePhase :: "nat \<Rightarrow> frame \<Rightarrow> game \<Rightarrow> game" where
  "movePhase player fr s =
     clampStep player (moveStep player fr (facingStep player (groundStep player fr (fireStep s))))"

definition playerController :: "frame \<Rightarrow> game \<Rightarrow> game" where
  "playerController fr s =
     (case playerRef s of
        None \<Rightarrow> s
      | Some player \<Rightarrow> jumpStep player (movePhase player fr s))"

section \<open>Monster and moving platform AI (the second beforeUpdate handler)\<close>

text \<open>\<open>engine.gravity.y = 1.8\<close>, set when the engine is created.\<close>

definition gravityY :: real where "gravityY = 1.8"

text \<open>The patrol branch for one monster: the flip rule, then the velocity.\<close>

definition patrolRule :: "MonsterAIState \<Rightarrow> body \<Rightarrow> MonsterAIState \<times> body" where
  "patrolRule ai m =
     (let half = rangeX ai / 2;
          ai1 = (if X (position m) < originX ai - half then ai\<lparr>dir := 1\<rparr> else ai);
          ai2 = (if X (position m) > originX ai1 + half then ai1\<lparr>dir := - 1\<rparr> else ai1)
      in (ai2, m\<lparr>velocity := \<lparr>X = speed ai2 * real_of_int (dir ai2), Y = Y (velocity m)\<rparr>\<rparr>))"

text \<open>The hover target and the hover velocity of a flying monster at time \<open>t\<close>.\<close>

definition hoverVelocity :: "real \<Rightarrow> MonsterAIState \<Rightarrow> body \<Rightarrow> vec" where
  "hoverVelocity t ai m =
     (let hoverAmp = (case hoverAmp ai of None \<Rightarrow> 18 | Some a \<Rightarrow> a);
          hoverFreq = (case hoverFreq ai of None \<Rightarrow> 0.002 | Some f \<Rightarrow> f);
          targetX = originX ai + sin (t * 0.001) * 70;
          targetY = originY ai + sin (t * hoverFreq) * hoverAmp;
          toX = targetX - X (position m);
          toY = targetY - Y (position m)
      in \<lparr>X = clamp (toX * 0.06) (- speed ai) (speed ai),
          Y = clamp (toY * 0.06) (- speed ai) (speed ai)\<rparr>)"

text \<open>Whether the flying monster chases: \<open>dist > 1 && dist < chaseRadius\<close>.\<close>

definition chasing :: "body \<Rightarrow> MonsterAIState \<Rightarrow> body \<Rightarrow> bool" where
  "chasing player ai m =
     (let chaseRadius = (case chaseRadius ai of None \<Rightarrow> 320 | Some r \<Rightarrow> r);
          dx = X (position player) - X (position m);
          dy = Y (position player) - Y (position m);
          dist = hypot dx dy
      in dist > 1 \<and> dist < chaseRadius)"

text \<open>The flying branch for one monster.\<close>

definition flyingRule :: "frame \<Rightarrow> nat \<Rightarrow> body \<Rightarrow> MonsterAIState \<Rightarrow> body \<Rightarrow> body" where
  "flyingRule fr mid player ai m =
     (let gravityAccel = gravityY * gravityScale fr;
          m1 = m\<lparr>force := \<lparr>X = X (force m) + 0,
                            Y = Y (force m) + - massOf fr mid * gravityAccel\<rparr>\<rparr>;
          dx = X (position player) - X (position m1);
          dy = Y (position player) - Y (position m1);
          dist = hypot dx dy
      in if chasing player ai m1
         then (let maxV = speed ai
               in m1\<lparr>velocity := \<lparr>X = (dx / dist) * maxV, Y = (dy / dist) * maxV\<rparr>\<rparr>)
         else m1\<lparr>velocity := hoverVelocity (timestamp fr) ai m1\<rparr>)"

text \<open>One iteration of \<open>for (const monster of monstersRef.current)\<close>.\<close>

definition monsterStep :: "frame \<Rightarrow> nat \<Rightarrow> nat \<Rightarrow> game \<Rightarrow> game" where
  "monsterStep fr player mid s =
     (case map_of (monsterAIRef s) mid of
        None \<Rightarrow> s
      | Some ai \<Rightarrow>
          (case kind ai of
             patrol \<Rightarrow>
               (let (ai', m') = patrolRule ai (bodies s mid)
                in s\<lparr>bodies := (bodies s)(mid := m'),
                     monsterAIRef := AList.update mid ai' (monsterAIRef s)\<rparr>)
           | flying \<Rightarrow>
               s\<lparr>bodies := (bodies s)(mid := flyingRule fr mid (bodies s player) ai (bodies s mid))\<rparr>))"

text \<open>The moving platform patrol.\<close>

definition platformStep :: "game \<Rightarrow> game" where
  "platformStep s =
     (case movingPlatformRef s of
        None \<Rightarrow> s
      | Some platform \<Rightarrow>
          (case movingPlatformAIRef s of
             None \<Rightarrow> s
           | Some ai \<Rightarrow>
               (let half = pfRange ai / 2;
                    ai1 = (if X (position (bodies s platform)) < pfOriginX ai - half
                           then ai\<lparr>pfDir := 1\<rparr> else ai);
                    ai2 = (if X (position (bodies s platform)) > pfOriginX ai1 + half
                           then ai1\<lparr>pfDir := - 1\<rparr> else ai1)
                in setVelocity platform \<lparr>X = pfSpeed ai2 * real_of_int (pfDir ai2), Y = 0\<rparr>
                     (s\<lparr>movingPlatformAIRef := Some ai2\<rparr>))))"

definition aiController :: "frame \<Rightarrow> game \<Rightarrow> game" where
  "aiController fr s =
     (case playerRef s of
        None \<Rightarrow> s
      | Some player \<Rightarrow> platformStep (fold (monsterStep fr player) (monstersRef s) s))"

section \<open>Collision handler (collisionStart)\<close>

text \<open>The projectile and monster branch: both leave the world and the tracking data.\<close>

definition removeHit :: "nat \<Rightarrow> nat \<Rightarrow> game \<Rightarrow> game" where
  "removeHit projectile monster s =
     (let s1 = worldRemove projectile s;
          s2 = worldRemove monster s1
      in s2\<lparr>projectilesRef := filter (\<lambda>p. p \<noteq> projectile) (projectilesRef s2),
            monstersRef := filter (\<lambda>m. m \<noteq> monster) (monstersRef s2),
            monsterAIRef := AList.delete monster (monsterAIRef s2),
            monsterStyleSeedRef := AList.delete monster (monsterStyleSeedRef s2)\<rparr>)"

text \<open>The player branch: the label of the other body decides.\<close>

definition playerHit :: "nat \<Rightarrow> game \<Rightarrow> game" where
  "playerHit otherBody s =
     (if label (bodies s otherBody) = ''spike''
      then (if gameStateRef s = playing then setGameState gameOver s else s)
      else if label (bodies s otherBody) = ''monster''
      then (if gameStateRef s = playing then setGameState gameOver s else s)
      else if label (bodies s otherBody) = ''goal''
      then (if gameStateRef s = playing then setGameState won s else s)
      else s)"

text \<open>The body of \<open>pairs.forEach\<close> for one pair \<open>(bodyA, bodyB)\<close>.\<close>

definition collisionPair :: "nat \<times> nat \<Rightarrow> game \<Rightarrow> game" where
  "collisionPair pr s =
     (let bodyA = fst pr; bodyB = snd pr;
          isProjectileA = (label (bodies s bodyA) = ''projectile'');
          isProjectileB = (label (bodies s bodyB) = ''projectile'');
          isMonsterA = (label (bodies s bodyA) = ''monster'');
          isMonsterB = (label (bodies s bodyB) = ''monster'')
      in if (isProjectileA \<and> isMonsterB) \<or> (isProjectileB \<and> isMonsterA)
         then removeHit (if isProjectileA then bodyA else bodyB)
                        (if isProjectileA then bodyB else bodyA) s
         else (let isPlayerTorso = (bodyA = torso s \<or> bodyB = torso s);
                   isPlayerHead = (bodyA = head s \<or> bodyB = head s)
               in if isPlayerTorso \<or> isPlayerHead
                  then playerHit
                         (if isPlayerTorso then (if bodyA = torso s then bodyB else bodyA)
                          else (if bodyA = head s then bodyB else bodyA)) s
                  else s))"

definition collisionStart :: "frame \<Rightarrow> game \<Rightarrow> game" where
  "collisionStart fr s = fold collisionPair (pairs fr) s"

section \<open>The afterUpdate handler\<close>

definition isOutOfBounds :: "game \<Rightarrow> nat \<Rightarrow> bool" where
  "isOutOfBounds s p =
     (X (position (bodies s p)) < 0 \<or> X (position (bodies s p)) > LEVEL_LENGTH \<or>
      Y (position (bodies s p)) < - 200 \<or> Y (position (bodies s p)) > WORLD_HEIGHT + 200)"

text \<open>
  The \<open>filter\<close> over the projectiles removes each out-of-bounds one from the world and
  drops it from the array; removal from the world moves no body, so the test gives the same
  answer for every element before and after.
\<close>

definition cleanupProjectiles :: "game \<Rightarrow> game" where
  "cleanupProjectiles s =
     (let s1 = fold (\<lambda>p a. if isOutOfBounds a p then worldRemove p a else a) (projectilesRef s) s
      in s1\<lparr>projectilesRef := filter (\<lambda>p. \<not> isOutOfBounds s1 p) (projectilesRef s1)\<rparr>)"

text \<open>Fall detection, then the camera.\<close>

definition fallCheck :: "nat \<Rightarrow> game \<Rightarrow> game" where
  "fallCheck player s =
     (if Y (position (bodies s player)) > WORLD_HEIGHT + 260 \<and> gameStateRef s = playing
      then setGameState gameOver s else s)"

definition cameraStep :: "nat \<Rightarrow> game \<Rightarrow> game" where
  "cameraStep player s =
     (let vw = viewportWRef s;
          targetX = X (position (bodies s player)) - vw / 2;
          clampedTargetX = clamp targetX 0 (max 0 (LEVEL_LENGTH - vw))
      in s\<lparr>cameraXRef := cameraXRef s + (clampedTargetX - cameraXRef s) * 0.14\<rparr>)"

definition afterUpdate :: "game \<Rightarrow> game" where
  "afterUpdate s =
     (let s1 = cleanupProjectiles s
      in case playerRef s1 of
           None \<Rightarrow> s1
         | Some player \<Rightarrow> cameraStep player (fallCheck player s1))"

section \<open>Mounting: initial refs and the setup effect\<close>

definition newBody :: "string \<Rightarrow> real \<Rightarrow> real \<Rightarrow> bool \<Rightarrow> body" where
  "newBody l px py sens =
     \<lparr>label = l, position = \<lparr>X = px, Y = py\<rparr>, velocity = \<lparr>X = 0, Y = 0\<rparr>,
      force = \<lparr>X = 0, Y = 0\<rparr>, isSensor = sens\<rparr>"

text \<open>The \<open>useRef\<close> and \<open>useState\<close> initial values.\<close>

definition initialRefs :: "GameCanvasProps \<Rightarrow> game" where
  "initialRefs p =
     \<lparr>bodies = (\<lambda>_. newBody [] 0 0 False), world = [], nextId = 0, torso = 0, head = 0,
      playerRef = None, playerHeadRef = None, playerGroundedRef = False, playerFacingRef = 1,
      keysRef = (\<lambda>_. False), cameraXRef = 0,
      monstersRef = [], monsterAIRef = [], monsterStyleSeedRef = [], projectilesRef = [],
      movingPlatformRef = None, movingPlatformAIRef = None,
      jumpStrengthRef = jumpStrengthOf p, jumpWasDownRef = False,
      viewportWRef = (case widthProp p of None \<Rightarrow> 800 | Some w \<Rightarrow> w),
      viewportHRef = (case heightProp p of None \<Rightarrow> 600 | Some h \<Rightarrow> h),
      gameStateRef = playing, gameState = playing, pendingGameState = []\<rparr>"

fun createBodies :: "body list \<Rightarrow> game \<Rightarrow> nat list \<times> game" where
  "createBodies [] s = ([], s)"
| "createBodies (b # bs) s =
     (let (i, s1) = createBody b s; (js, s2) = createBodies bs s1 in (i # js, s2))"

text \<open>\<open>monsterStyleSeedRef.current.set(m.id, ...)\<close> and \<open>monsterAIRef.current.set(m.id, ...)\<close>\<close>

definition registerMonster :: "nat \<Rightarrow> MonsterAIState \<Rightarrow> game \<Rightarrow> game" where
  "registerMonster m ai s =
     s\<lparr>monsterStyleSeedRef := AList.update m ((m * 9301 + 49297) mod 233280) (monsterStyleSeedRef s),
       monsterAIRef := AList.update m ai (monsterAIRef s)\<rparr>"

text \<open>The static level bodies, in the order the setup effect creates them.\<close>

definition segmentWidth :: real where "segmentWidth = 900"

definition segmentCount :: nat where "segmentCount = nat \<lceil>LEVEL_LENGTH / segmentWidth\<rceil>"

definition groundSegments :: "body list" where
  "groundSegments =
     map (\<lambda>i. newBody ''ground'' (real i * segmentWidth + segmentWidth / 2)
                  (WORLD_HEIGHT - GROUND_HEIGHT / 2) False) [0..<segmentCount]"

definition boundaryWalls :: "body list" where
  "boundaryWalls =
     [newBody ''boundary'' (- 25) (WORLD_HEIGHT / 2) False,
      newBody ''boundary'' (LEVEL_LENGTH + 25) (WORLD_HEIGHT / 2) False]"

definition platformSpecs :: "(real \<times> real) list" where
  "platformSpecs =
     [(800, WORLD_HEIGHT - 150), (1400, WORLD_HEIGHT - 240), (1900, WORLD_HEIGHT - 200),
      (2600, WORLD_HEIGHT - 170), (3300, WORLD_HEIGHT - 260), (4200, WORLD_HEIGHT - 210),
      (5000, WORLD_HEIGHT - 280), (5800, WORLD_HEIGHT - 200), (6600, WORLD_HEIGHT - 240)]"

definition platforms :: "body list" where
  "platforms = map (\<lambda>(px, py). newBody ''platform'' px py False) platformSpecs"

definition spikePositions :: "(real \<times> real) list" where
  "spikePositions =
     map (\<lambda>px. (px, WORLD_HEIGHT - GROUND_HEIGHT)) [1100, 2100, 2950, 4550, 5450, 6250, 7100]"

definition spikes :: "body list" where
  "spikes = map (\<lambda>(px, py). newBody ''spike'' px py False) spikePositions"

definition GOAL_X :: real where "GOAL_X = LEVEL_LENGTH - 260"

definition wallsAndGate :: "body list" where
  "wallsAndGate =
     [newBody ''wall'' 2400 (WORLD_HEIGHT - 110) False,
      newBody ''wall'' 4700 (WORLD_HEIGHT - 180) False,
      newBody ''gate'' (GOAL_X - 70) (WORLD_HEIGHT - 140) False,
      newBody ''gate'' (GOAL_X + 70) (WORLD_HEIGHT - 140) False,
      newBody ''gate'' GOAL_X (WORLD_HEIGHT - 230) False,
      newBody ''gate'' (GOAL_X + 110) (WORLD_HEIGHT - 250) False,
      newBody ''goal'' GOAL_X (WORLD_HEIGHT - 140) True]"

text \<open>
  The setup effect; \<open>win\<close> is \<open>(window.innerWidth, window.innerHeight)\<close>. The torso and the
  head keep Matter's default labels. \<open>World.add\<close> lists the ground, the boundaries, the
  player, the obstacles and the monsters, as the source does.
\<close>

definition setupWorld :: "GameCanvasProps \<Rightarrow> vec \<Rightarrow> game \<Rightarrow> game" where
  "setupWorld p win s0 =
     (let sa = s0\<lparr>viewportWRef := (case widthProp p of None \<Rightarrow> X win | Some w \<Rightarrow> w),
                  viewportHRef := (case heightProp p of None \<Rightarrow> Y win | Some h \<Rightarrow> h)\<rparr>;
          (ground, sb) = createBodies (groundSegments @ boundaryWalls) sa;
          (plats, sc) = createBodies platforms sb;
          (movingPlatform, sd) = createBody (newBody ''movingPlatform'' 3600 (WORLD_HEIGHT - 320) False) sc;
          se = sd\<lparr>movingPlatformRef := Some movingPlatform,
                  movingPlatformAIRef := Some \<lparr>pfOriginX = 3600, pfRange = 120, pfSpeed = 1.1, pfDir = 1\<rparr>\<rparr>;
          (hazards, sf) = createBodies (spikes @ wallsAndGate) se;
          (monster1, s1) = createBody (newBody ''monster'' 1200 (WORLD_HEIGHT - 80) False) sf;
          s1r = registerMonster monster1
                  \<lparr>kind = patrol, originX = 1200, originY = Y (position (bodies s1 monster1)),
                   rangeX = 240, speed = 2.2, dir = 1,
                   chaseRadius = None, hoverAmp = None, hoverFreq = None\<rparr> s1;
          (monster2, s2) = createBody (newBody ''monster'' 3350 (WORLD_HEIGHT - 290) False) s1r;
          s2r = registerMonster monster2
                  \<lparr>kind = patrol, originX = 3350, originY = Y (position (bodies s2 monster2)),
                   rangeX = 180, speed = 1.9, dir = - 1,
                   chaseRadius = None, hoverAmp = None, hoverFreq = None\<rparr> s2;
          (monster3, s3) = createBody (newBody ''monster'' 5600 (WORLD_HEIGHT - 360) False) s2r;
          s3r = registerMonster monster3
                  \<lparr>kind = flying, originX = 5600, originY = WORLD_HEIGHT - 360,
                   rangeX = 0, speed = 2.6, dir = 1,
                   chaseRadius = Some 340, hoverAmp = Some 22, hoverFreq = Some 0.0022\<rparr> s3;
          s4 = s3r\<lparr>monstersRef := [monster1, monster2, monster3]\<rparr>;
          playerX = 120;
          playerY = WORLD_HEIGHT - GROUND_HEIGHT - PLAYER_HEIGHT / 2;
          (t, s5) = createBody (newBody ''Rectangle Body'' playerX playerY False) s4;
          (h, s6) = createBody (newBody ''Circle Body'' playerX (playerY - PLAYER_HEIGHT * 0.4) False) s5;
          s7 = s6\<lparr>torso := t, head := h, playerRef := Some t, playerHeadRef := Some h\<rparr>
      in worldAdd (ground @ [t, h] @ plats @ [movingPlatform] @ hazards
                   @ [monster1, monster2, monster3]) s7)"

text \<open>Mounting runs the three effects in the order they are declared.\<close>

definition mount :: "GameCanvasProps \<Rightarrow> vec \<Rightarrow> game" where
  "mount p win = setupWorld p win (gameStateEffect (jumpStrengthEffect p (initialRefs p)))"

section \<open>A run of the mounted component\<close>

text \<open>One \<open>Engine.update\<close>: both beforeUpdate handlers, the engine's step, the collision
  events it reports, and afterUpdate.\<close>

definition physicsStep :: "frame \<Rightarrow> game \<Rightarrow> game" where
  "physicsStep fr s = s\<lparr>bodies := physics fr (bodies s)\<rparr>"

definition engineUpdate :: "frame \<Rightarrow> game \<Rightarrow> game" where
  "engineUpdate fr s =
     afterUpdate (collisionStart fr (physicsStep fr (aiController fr (playerController fr s))))"

text \<open>
  What can happen to the mounted component between mount and page reload: a key goes down
  or up, the engine updates, the parent passes new jump props, React commits.
\<close>

datatype event =
    KeyDown string
  | KeyUp string
  | Update frame
  | JumpProps GameCanvasProps
  | Commit

fun step :: "event \<Rightarrow> game \<Rightarrow> game" where
  "step (KeyDown code) s = handleKeyDown code s"
| "step (KeyUp code) s = handleKeyUp code s"
| "step (Update fr) s = engineUpdate fr s"
| "step (JumpProps p) s = jumpStrengthEffect p s"
| "step Commit s = commit s"

definition run :: "event list \<Rightarrow> game \<Rightarrow> game" where
  "run es s = fold step es s"

section \<open>Registry consistency\<close>


section \<open>Concrete inputs for the examples\<close>

text \<open>Props with an 800 by 600 viewport and jump strength 18, a window size, and an engine
  update in which the engine moves nothing: \<open>hits\<close> are the bodies under the ground ray, \<open>ps\<close> the
  collision pairs.\<close>

definition demoProps :: GameCanvasProps where
  "demoProps = \<lparr>widthProp = Some 800, heightProp = Some 600, jumpStrengthProp = Some 18, jumpHeightProp = None\<rparr>"

definition demoWindow :: vec where
  "demoWindow = \<lparr>X = 1280, Y = 720\<rparr>"

definition stillFrame :: "nat list \<Rightarrow> (nat \<times> nat) list \<Rightarrow> frame" where
  "stillFrame hits ps =
     \<lparr>rayHits = hits, timestamp = 0, gravityScale = 0.001, massOf = (\<lambda>_. 1),
      physics = (\<lambda>b. b), pairs = ps\<rparr>"

text \<open>An engine update whose step leaves body \<open>b\<close> with velocity \<open>v\<close> and moves nothing.\<close>

definition pushFrame :: "nat \<Rightarrow> vec \<Rightarrow> frame" where
  "pushFrame b v =
     \<lparr>rayHits = [], timestamp = 0, gravityScale = 0.001, massOf = (\<lambda>_. 1),
      physics = (\<lambda>bs. bs(b := (bs b)\<lparr>velocity := v\<rparr>)), pairs = []\<rparr>"

text \<open>
  An engine update whose step integrates the horizontal force accumulated on body \<open>b\<close> the
  way Matter's Verlet step does, \<open>v' = v * (1 - frictionAir) + (force / mass) * dt\<^sup>2\<close>, with
  the torso's air friction 0.003, the default step of \<open>1000 / 60\<close> ms and mass 1, clears the
  force, and moves nothing else.
\<close>

definition forceFrame :: "nat \<Rightarrow> nat list \<Rightarrow> frame" where
  "forceFrame b hits =
     \<lparr>rayHits = hits, timestamp = 0, gravityScale = 0.001, massOf = (\<lambda>_. 1),
      physics = (\<lambda>bs. bs(b := (bs b)
                   \<lparr>velocity := \<lparr>X = X (velocity (bs b)) * (1 - 0.003)
                                      + (X (force (bs b)) / 1) * (1000 / 60)\<^sup>2,
                                  Y = Y (velocity (bs b))\<rparr>,
                    force := \<lparr>X = 0, Y = 0\<rparr>\<rparr>)),
      pairs = []\<rparr>"

section \<open>What each handler leaves alone\<close>

lemmas matter_defs = setVelocity_def applyForce_def updBody_def createBody_def worldAdd_def
  worldRemove_def setGameState_def

lemma createProjectile_frame [simp]:
  "torso (createProjectile s) = torso s"
  "head (createProjectile s) = head s"
  "playerRef (createProjectile s) = playerRef s"
  "playerHeadRef (createProjectile s) = playerHeadRef s"
  "playerGroundedRef (createProjectile s) = playerGroundedRef s"
  "playerFacingRef (createProjectile s) = playerFacingRef s"
  "keysRef (createProjectile s) = keysRef s"
  "cameraXRef (createProjectile s) = cameraXRef s"
  "monstersRef (createProjectile s) = monstersRef s"
  "monsterAIRef (createProjectile s) = monsterAIRef s"
  "monsterStyleSeedRef (createProjectile s) = monsterStyleSeedRef s"
  "movingPlatformRef (createProjectile s) = movingPlatformRef s"
  "movingPlatformAIRef (createProjectile s) = movingPlatformAIRef s"
  "jumpStrengthRef (createProjectile s) = jumpStrengthRef s"
  "jumpWasDownRef (createProjectile s) = jumpWasDownRef s"
  "viewportWRef (createProjectile s) = viewportWRef s"
  "viewportHRef (createProjectile s) = viewportHRef s"
  "gameStateRef (createProjectile s) = gameStateRef s"
  "gameState (createProjectile s) = gameState s"
  "pendingGameState (createProjectile s) = pendingGameState s"
  by (simp_all add: createProjectile_def matter_defs Let_def split: option.split)

lemma fireStep_frame [simp]:
  "torso (fireStep s) = torso s"
  "head (fireStep s) = head s"
  "playerRef (fireStep s) = playerRef s"
  "playerHeadRef (fireStep s) = playerHeadRef s"
  "playerGroundedRef (fireStep s) = playerGroundedRef s"
  "playerFacingRef (fireStep s) = playerFacingRef s"
  "cameraXRef (fireStep s) = cameraXRef s"
  "monstersRef (fireStep s) = monstersRef s"
  "monsterAIRef (fireStep s) = monsterAIRef s"
  "monsterStyleSeedRef (fireStep s) = monsterStyleSeedRef s"
  "movingPlatformRef (fireStep s) = movingPlatformRef s"
  "movingPlatformAIRef (fireStep s) = movingPlatformAIRef s"
  "jumpStrengthRef (fireStep s) = jumpStrengthRef s"
  "jumpWasDownRef (fireStep s) = jumpWasDownRef s"
  "viewportWRef (fireStep s) = viewportWRef s"
  "viewportHRef (fireStep s) = viewportHRef s"
  "gameStateRef (fireStep s) = gameStateRef s"
  "gameState (fireStep s) = gameState s"
  "pendingGameState (fireStep s) = pendingGameState s"
  by (simp_all add: fireStep_def Let_def)

lemma groundStep_frame [simp]:
  "bodies (groundStep pl fr s) = bodies s"
  "world (groundStep pl fr s) = world s"
  "nextId (groundStep pl fr s) = nextId s"
  "torso (groundStep pl fr s) = torso s"
  "head (groundStep pl fr s) = head s"
  "playerRef (groundStep pl fr s) = playerRef s"
  "playerHeadRef (groundStep pl fr s) = playerHeadRef s"
  "playerFacingRef (groundStep pl fr s) = playerFacingRef s"
  "keysRef (groundStep pl fr s) = keysRef s"
  "cameraXRef (groundStep pl fr s) = cameraXRef s"
  "monstersRef (groundStep pl fr s) = monstersRef s"
  "monsterAIRef (groundStep pl fr s) = monsterAIRef s"
  "monsterStyleSeedRef (groundStep pl fr s) = monsterStyleSeedRef s"
  "projectilesRef (groundStep pl fr s) = projectilesRef s"
  "movingPlatformRef (groundStep pl fr s) = movingPlatformRef s"
  "movingPlatformAIRef (groundStep pl fr s) = movingPlatformAIRef s"
  "jumpStrengthRef (groundStep pl fr s) = jumpStrengthRef s"
  "jumpWasDownRef (groundStep pl fr s) = jumpWasDownRef s"
  "viewportWRef (groundStep pl fr s) = viewportWRef s"
  "viewportHRef (groundStep pl fr s) = viewportHRef s"
  "gameStateRef (groundStep pl fr s) = gameStateRef s"
  "gameState (groundStep pl fr s) = gameState s"
  "pendingGameState (groundStep pl fr s) = pendingGameState s"
  by (simp_all add: groundStep_def)

lemma facingStep_frame [simp]:
  "bodies (facingStep pl s) = bodies s"
  "world (facingStep pl s) = world s"
  "nextId (facingStep pl s) = nextId s"
  "torso (facingStep pl s) = torso s"
  "head (facingStep pl s) = head s"
  "playerRef (facingStep pl s) = playerRef s"
  "playerHeadRef (facingStep pl s) = playerHeadRef s"
  "playerGroundedRef (facingStep pl s) = playerGroundedRef s"
  "keysRef (facingStep pl s) = keysRef s"
  "cameraXRef (facingStep pl s) = cameraXRef s"
  "monstersRef (facingStep pl s) = monstersRef s"
  "monsterAIRef (facingStep pl s) = monsterAIRef s"
  "monsterStyleSeedRef (facingStep pl s) = monsterStyleSeedRef s"
  "projectilesRef (facingStep pl s) = projectilesRef s"
  "movingPlatformRef (facingStep pl s) = movingPlatformRef s"
  "movingPlatformAIRef (facingStep pl s) = movingPlatformAIRef s"
  "jumpStrengthRef (facingStep pl s) = jumpStrengthRef s"
  "jumpWasDownRef (facingStep pl s) = jumpWasDownRef s"
  "viewportWRef (facingStep pl s) = viewportWRef s"
  "viewportHRef (facingStep pl s) = viewportHRef s"
  "gameStateRef (facingStep pl s) = gameStateRef s"
  "gameState (facingStep pl s) = gameState s"
  "pendingGameState (facingStep pl s) = pendingGameState s"
  by (simp_all add: facingStep_def Let_def)

lemma moveStep_frame [simp]:
  "world (moveStep pl fr s) = world s"
  "nextId (moveStep pl fr s) = nextId s"
  "torso (moveStep pl fr s) = torso s"
  "head (moveStep pl fr s) = head s"
  "playerRef (moveStep pl fr s) = playerRef s"
  "playerHeadRef (moveStep pl fr s) = playerHeadRef s"
  "playerGroundedRef (moveStep pl fr s) = playerGroundedRef s"
  "playerFacingRef (moveStep pl fr s) = playerFacingRef s"
  "keysRef (moveStep pl fr s) = keysRef s"
  "cameraXRef (moveStep pl fr s) = cameraXRef s"
  "monstersRef (moveStep pl fr s) = monstersRef s"
  "monsterAIRef (moveStep pl fr s) = monsterAIRef s"
  "monsterStyleSeedRef (moveStep pl fr s) = monsterStyleSeedRef s"
  "projectilesRef (moveStep pl fr s) = projectilesRef s"
  "movingPlatformRef (moveStep pl fr s) = movingPlatformRef s"
  "movingPlatformAIRef (moveStep pl fr s) = movingPlatformAIRef s"
  "jumpStrengthRef (moveStep pl fr s) = jumpStrengthRef s"
  "jumpWasDownRef (moveStep pl fr s) = jumpWasDownRef s"
  "viewportWRef (moveStep pl fr s) = viewportWRef s"
  "viewportHRef (moveStep pl fr s) = viewportHRef s"
  "gameStateRef (moveStep pl fr s) = gameStateRef s"
  "gameState (moveStep pl fr s) = gameState s"
  "pendingGameState (moveStep pl fr s) = pendingGameState s"
  by (simp_all add: moveStep_def Let_def matter_defs)

lemma clampStep_frame [simp]:
  "world (clampStep pl s) = world s"
  "nextId (clampStep pl s) = nextId s"
  "torso (clampStep pl s) = torso s"
  "head (clampStep pl s) = head s"
  "playerRef (clampStep pl s) = playerRef s"
  "playerHeadRef (clampStep pl s) = playerHeadRef s"
  "playerGroundedRef (clampStep pl s) = playerGroundedRef s"
  "playerFacingRef (clampStep pl s) = playerFacingRef s"
  "keysRef (clampStep pl s) = keysRef s"
  "cameraXRef (clampStep pl s) = cameraXRef s"
  "monstersRef (clampStep pl s) = monstersRef s"
  "monsterAIRef (clampStep pl s) = monsterAIRef s"
  "monsterStyleSeedRef (clampStep pl s) = monsterStyleSeedRef s"
  "projectilesRef (clampStep pl s) = projectilesRef s"
  "movingPlatformRef (clampStep pl s) = movingPlatformRef s"
  "movingPlatformAIRef (clampStep pl s) = movingPlatformAIRef s"
  "jumpStrengthRef (clampStep pl s) = jumpStrengthRef s"
  "jumpWasDownRef (clampStep pl s) = jumpWasDownRef s"
  "viewportWRef (clampStep pl s) = viewportWRef s"
  "viewportHRef (clampStep pl s) = viewportHRef s"
  "gameStateRef (clampStep pl s) = gameStateRef s"
  "gameState (clampStep pl s) = gameState s"
  "pendingGameState (clampStep pl s) = pendingGameState s"
  by (simp_all add: clampStep_def matter_defs)

lemma jumpStep_frame [simp]:
  "world (jumpStep pl s) = world s"
  "nextId (jumpStep pl s) = nextId s"
  "torso (jumpStep pl s) = torso s"
  "head (jumpStep pl s) = head s"
  "playerRef (jumpStep pl s) = playerRef s"
  "playerHeadRef (jumpStep pl s) = playerHeadRef s"
  "playerGroundedRef (jumpStep pl s) = playerGroundedRef s"
  "playerFacingRef (jumpStep pl s) = playerFacingRef s"
  "keysRef (jumpStep pl s) = keysRef s"
  "cameraXRef (jumpStep pl s) = cameraXRef s"
  "monstersRef (jumpStep pl s) = monstersRef s"
  "monsterAIRef (jumpStep pl s) = monsterAIRef s"
  "monsterStyleSeedRef (jumpStep pl s) = monsterStyleSeedRef s"
  "projectilesRef (jumpStep pl s) = projectilesRef s"
  "movingPlatformRef (jumpStep pl s) = movingPlatformRef s"
  "movingPlatformAIRef (jumpStep pl s) = movingPlatformAIRef s"
  "jumpStrengthRef (jumpStep pl s) = jumpStrengthRef s"
  "viewportWRef (jumpStep pl s) = viewportWRef s"
  "viewportHRef (jumpStep pl s) = viewportHRef s"
  "gameStateRef (jumpStep pl s) = gameStateRef s"
  "gameState (jumpStep pl s) = gameState s"
  "pendingGameState (jumpStep pl s) = pendingGameState s"
  by (simp_all add: jumpStep_def Let_def matter_defs)

lemma movePhase_frame [simp]:
  "torso (movePhase pl fr s) = torso s"
  "head (movePhase pl fr s) = head s"
  "playerRef (movePhase pl fr s) = playerRef s"
  "playerHeadRef (movePhase pl fr s) = playerHeadRef s"
  "cameraXRef (movePhase pl fr s) = cameraXRef s"
  "monstersRef (movePhase pl fr s) = monstersRef s"
  "monsterAIRef (movePhase pl fr s) = monsterAIRef s"
  "monsterStyleSeedRef (movePhase pl fr s) = monsterStyleSeedRef s"
  "movingPlatformRef (movePhase pl fr s) = movingPlatformRef s"
  "movingPlatformAIRef (movePhase pl fr s) = movingPlatformAIRef s"
  "jumpStrengthRef (movePhase pl fr s) = jumpStrengthRef s"
  "jumpWasDownRef (movePhase pl fr s) = jumpWasDownRef s"
  "viewportWRef (movePhase pl fr s) = viewportWRef s"
  "viewportHRef (movePhase pl fr s) = viewportHRef s"
  "gameStateRef (movePhase pl fr s) = gameStateRef s"
  "gameState (movePhase pl fr s) = gameState s"
  "pendingGameState (movePhase pl fr s) = pendingGameState s"
  by (simp_all add: movePhase_def)

lemma playerController_frame [simp]:
  "torso (playerController fr s) = torso s"
  "head (playerController fr s) = head s"
  "playerRef (playerController fr s) = playerRef s"
  "playerHeadRef (playerController fr s) = playerHeadRef s"
  "cameraXRef (playerController fr s) = cameraXRef s"
  "monstersRef (playerController fr s) = monstersRef s"
  "monsterAIRef (playerController fr s) = monsterAIRef s"
  "monsterStyleSeedRef (playerController fr s) = monsterStyleSeedRef s"
  "movingPlatformRef (playerController fr s) = movingPlatformRef s"
  "movingPlatformAIRef (playerController fr s) = movingPlatformAIRef s"
  "jumpStrengthRef (playerController fr s) = jumpStrengthRef s"
  "viewportWRef (playerController fr s) = viewportWRef s"
  "viewportHRef (playerController fr s) = viewportHRef s"
  "gameStateRef (playerController fr s) = gameStateRef s"
  "gameState (playerController fr s) = gameState s"
  "pendingGameState (playerController fr s) = pendingGameState s"
  by (simp_all add: playerController_def split: option.split)

lemma monsterStep_frame [simp]:
  "world (monsterStep fr pl m s) = world s"
  "nextId (monsterStep fr pl m s) = nextId s"
  "torso (monsterStep fr pl m s) = torso s"
  "head (monsterStep fr pl m s) = head s"
  "playerRef (monsterStep fr pl m s) = playerRef s"
  "playerHeadRef (monsterStep fr pl m s) = playerHeadRef s"
  "playerGroundedRef (monsterStep fr pl m s) = playerGroundedRef s"
  "playerFacingRef (monsterStep fr pl m s) = playerFacingRef s"
  "keysRef (monsterStep fr pl m s) = keysRef s"
  "cameraXRef (monsterStep fr pl m s) = cameraXRef s"
  "monstersRef (monsterStep fr pl m s) = monstersRef s"
  "monsterStyleSeedRef (monsterStep fr pl m s) = monsterStyleSeedRef s"
  "projectilesRef (monsterStep fr pl m s) = projectilesRef s"
  "movingPlatformRef (monsterStep fr pl m s) = movingPlatformRef s"
  "movingPlatformAIRef (monsterStep fr pl m s) = movingPlatformAIRef s"
  "jumpStrengthRef (monsterStep fr pl m s) = jumpStrengthRef s"
  "jumpWasDownRef (monsterStep fr pl m s) = jumpWasDownRef s"
  "viewportWRef (monsterStep fr pl m s) = viewportWRef s"
  "viewportHRef (monsterStep fr pl m s) = viewportHRef s"
  "gameStateRef (monsterStep fr pl m s) = gameStateRef s"
  "gameState (monsterStep fr pl m s) = gameState s"
  "pendingGameState (monsterStep fr pl m s) = pendingGameState s"
  by (simp_all add: monsterStep_def Let_def split: option.split MonsterAIKind.split prod.split)

lemma fold_monsterStep_frame [simp]:
  "world (fold (monsterStep fr pl) ms s) = world s"
  "nextId (fold (monsterStep fr pl) ms s) = nextId s"
  "torso (fold (monsterStep fr pl) ms s) = torso s"
  "head (fold (monsterStep fr pl) ms s) = head s"
  "playerRef (fold (monsterStep fr pl) ms s) = playerRef s"
  "playerHeadRef (fold (monsterStep fr pl) ms s) = playerHeadRef s"
  "playerGroundedRef (fold (monsterStep fr pl) ms s) = playerGroundedRef s"
  "playerFacingRef (fold (monsterStep fr pl) ms s) = playerFacingRef s"
  "keysRef (fold (monsterStep fr pl) ms s) = keysRef s"
  "cameraXRef (fold (monsterStep fr pl) ms s) = cameraXRef s"
  "monstersRef (fold (monsterStep fr pl) ms s) = monstersRef s"
  "monsterStyleSeedRef (fold (monsterStep fr pl) ms s) = monsterStyleSeedRef s"
  "projectilesRef (fold (monsterStep fr pl) ms s) = projectilesRef s"
  "movingPlatformRef (fold (monsterStep fr pl) ms s) = movingPlatformRef s"
  "movingPlatformAIRef (fold (monsterStep fr pl) ms s) = movingPlatformAIRef s"
  "jumpStrengthRef (fold (monsterStep fr pl) ms s) = jumpStrengthRef s"
  "jumpWasDownRef (fold (monsterStep fr pl) ms s) = jumpWasDownRef s"
  "viewportWRef (fold (monsterStep fr pl) ms s) = viewportWRef s"
  "viewportHRef (fold (monsterStep fr pl) ms s) = viewportHRef s"
  "gameStateRef (fold (monsterStep fr pl) ms s) = gameStateRef s"
  "gameState (fold (monsterStep fr pl) ms s) = gameState s"
  "pendingGameState (fold (monsterStep fr pl) ms s) = pendingGameState s"
  by (induction ms arbitrary: s; simp)+

lemma platformStep_frame [simp]:
  "world (platformStep s) = world s"
  "nextId (platformStep s) = nextId s"
  "torso (platformStep s) = torso s"
  "head (platformStep s) = head s"
  "playerRef (platformStep s) = playerRef s"
  "playerHeadRef (platformStep s) = playerHeadRef s"
  "playerGroundedRef (platformStep s) = playerGroundedRef s"
  "playerFacingRef (platformStep s) = playerFacingRef s"
  "keysRef (platformStep s) = keysRef s"
  "cameraXRef (platformStep s) = cameraXRef s"
  "monstersRef (platformStep s) = monstersRef s"
  "monsterAIRef (platformStep s) = monsterAIRef s"
  "monsterStyleSeedRef (platformStep s) = monsterStyleSeedRef s"
  "projectilesRef (platformStep s) = projectilesRef s"
  "movingPlatformRef (platformStep s) = movingPlatformRef s"
  "jumpStrengthRef (platformStep s) = jumpStrengthRef s"
  "jumpWasDownRef (platformStep s) = jumpWasDownRef s"
  "viewportWRef (platformStep s) = viewportWRef s"
  "viewportHRef (platformStep s) = viewportHRef s"
  "gameStateRef (platformStep s) = gameStateRef s"
  "gameState (platformStep s) = gameState s"
  "pendingGameState (platformStep s) = pendingGameState s"
  by (simp_all add: platformStep_def Let_def matter_defs split: option.split)

lemma aiController_frame [simp]:
  "world (aiController fr s) = world s"
  "nextId (aiController fr s) = nextId s"
  "torso (aiController fr s) = torso s"
  "head (aiController fr s) = head s"
  "playerRef (aiController fr s) = playerRef s"
  "playerHeadRef (aiController fr s) = playerHeadRef s"
  "playerGroundedRef (aiController fr s) = playerGroundedRef s"
  "playerFacingRef (aiController fr s) = playerFacingRef s"
  "keysRef (aiController fr s) = keysRef s"
  "cameraXRef (aiController fr s) = cameraXRef s"
  "monstersRef (aiController fr s) = monstersRef s"
  "monsterStyleSeedRef (aiController fr s) = monsterStyleSeedRef s"
  "projectilesRef (aiController fr s) = projectilesRef s"
  "movingPlatformRef (aiController fr s) = movingPlatformRef s"
  "jumpStrengthRef (aiController fr s) = jumpStrengthRef s"
  "jumpWasDownRef (aiController fr s) = jumpWasDownRef s"
  "viewportWRef (aiController fr s) = viewportWRef s"
  "viewportHRef (aiController fr s) = viewportHRef s"
  "gameStateRef (aiController fr s) = gameStateRef s"
  "gameState (aiController fr s) = gameState s"
  "pendingGameState (aiController fr s) = pendingGameState s"
  by (simp_all add: aiController_def split: option.split)

lemma physicsStep_frame [simp]:
  "world (physicsStep fr s) = world s"
  "nextId (physicsStep fr s) = nextId s"
  "torso (physicsStep fr s) = torso s"
  "head (physicsStep fr s) = head s"
  "playerRef (physicsStep fr s) = playerRef s"
  "playerHeadRef (physicsStep fr s) = playerHeadRef s"
  "playerGroundedRef (physicsStep fr s) = playerGroundedRef s"
  "playerFacingRef (physicsStep fr s) = playerFacingRef s"
  "keysRef (physicsStep fr s) = keysRef s"
  "cameraXRef (physicsStep fr s) = cameraXRef s"
  "monstersRef (physicsStep fr s) = monstersRef s"
  "monsterAIRef (physicsStep fr s) = monsterAIRef s"
  "monsterStyleSeedRef (physicsStep fr s) = monsterStyleSeedRef s"
  "projectilesRef (physicsStep fr s) = projectilesRef s"
  "movingPlatformRef (physicsStep fr s) = movingPlatformRef s"
  "movingPlatformAIRef (physicsStep fr s) = movingPlatformAIRef s"
  "jumpStrengthRef (physicsStep fr s) = jumpStrengthRef s"
  "jumpWasDownRef (physicsStep fr s) = jumpWasDownRef s"
  "viewportWRef (physicsStep fr s) = viewportWRef s"
  "viewportHRef (physicsStep fr s) = viewportHRef s"
  "gameStateRef (physicsStep fr s) = gameStateRef s"
  "gameState (physicsStep fr s) = gameState s"
  "pendingGameState (physicsStep fr s) = pendingGameState s"
  by (simp_all add: physicsStep_def)

lemma removeHit_frame [simp]:
  "bodies (removeHit p m s) = bodies s"
  "nextId (removeHit p m s) = nextId s"
  "torso (removeHit p m s) = torso s"
  "head (removeHit p m s) = head s"
  "playerRef (removeHit p m s) = playerRef s"
  "playerHeadRef (removeHit p m s) = playerHeadRef s"
  "playerGroundedRef (removeHit p m s) = playerGroundedRef s"
  "playerFacingRef (removeHit p m s) = playerFacingRef s"
  "keysRef (removeHit p m s) = keysRef s"
  "cameraXRef (removeHit p m s) = cameraXRef s"
  "movingPlatformRef (removeHit p m s) = movingPlatformRef s"
  "movingPlatformAIRef (removeHit p m s) = movingPlatformAIRef s"
  "jumpStrengthRef (removeHit p m s) = jumpStrengthRef s"
  "jumpWasDownRef (removeHit p m s) = jumpWasDownRef s"
  "viewportWRef (removeHit p m s) = viewportWRef s"
  "viewportHRef (removeHit p m s) = viewportHRef s"
  "gameStateRef (removeHit p m s) = gameStateRef s"
  "gameState (removeHit p m s) = gameState s"
  "pendingGameState (removeHit p m s) = pendingGameState s"
  by (simp_all add: removeHit_def Let_def matter_defs)

lemma playerHit_frame [simp]:
  "bodies (playerHit b s) = bodies s"
  "world (playerHit b s) = world s"
  "nextId (playerHit b s) = nextId s"
  "torso (playerHit b s) = torso s"
  "head (playerHit b s) = head s"
  "playerRef (playerHit b s) = playerRef s"
  "playerHeadRef (playerHit b s) = playerHeadRef s"
  "playerGroundedRef (playerHit b s) = playerGroundedRef s"
  "playerFacingRef (playerHit b s) = playerFacingRef s"
  "keysRef (playerHit b s) = keysRef s"
  "cameraXRef (playerHit b s) = cameraXRef s"
  "monstersRef (playerHit b s) = monstersRef s"
  "monsterAIRef (playerHit b s) = monsterAIRef s"
  "monsterStyleSeedRef (playerHit b s) = monsterStyleSeedRef s"
  "projectilesRef (playerHit b s) = projectilesRef s"
  "movingPlatformRef (playerHit b s) = movingPlatformRef s"
  "movingPlatformAIRef (playerHit b s) = movingPlatformAIRef s"
  "jumpStrengthRef (playerHit b s) = jumpStrengthRef s"
  "jumpWasDownRef (playerHit b s) = jumpWasDownRef s"
  "viewportWRef (playerHit b s) = viewportWRef s"
  "viewportHRef (playerHit b s) = viewportHRef s"
  "gameStateRef (playerHit b s) = gameStateRef s"
  "gameState (playerHit b s) = gameState s"
  by (simp_all add: playerHit_def matter_defs)

lemma collisionPair_frame [simp]:
  "bodies (collisionPair pr s) = bodies s"
  "nextId (collisionPair pr s) = nextId s"
  "torso (collisionPair pr s) = torso s"
  "head (collisionPair pr s) = head s"
  "playerRef (collisionPair pr s) = playerRef s"
  "playerHeadRef (collisionPair pr s) = playerHeadRef s"
  "playerGroundedRef (collisionPair pr s) = playerGroundedRef s"
  "playerFacingRef (collisionPair pr s) = playerFacingRef s"
  "keysRef (collisionPair pr s) = keysRef s"
  "cameraXRef (collisionPair pr s) = cameraXRef s"
  "movingPlatformRef (collisionPair pr s) = movingPlatformRef s"
  "movingPlatformAIRef (collisionPair pr s) = movingPlatformAIRef s"
  "jumpStrengthRef (collisionPair pr s) = jumpStrengthRef s"
  "jumpWasDownRef (collisionPair pr s) = jumpWasDownRef s"
  "viewportWRef (collisionPair pr s) = viewportWRef s"
  "viewportHRef (collisionPair pr s) = viewportHRef s"
  "gameStateRef (collisionPair pr s) = gameStateRef s"
  "gameState (collisionPair pr s) = gameState s"
  by (simp_all add: collisionPair_def Let_def)

lemma fold_collisionPair_frame [simp]:
  "bodies (fold collisionPair ps s) = bodies s"
  "nextId (fold collisionPair ps s) = nextId s"
  "torso (fold collisionPair ps s) = torso s"
  "head (fold collisionPair ps s) = head s"
  "playerRef (fold collisionPair ps s) = playerRef s"
  "playerHeadRef (fold collisionPair ps s) = playerHeadRef s"
  "playerGroundedRef (fold collisionPair ps s) = playerGroundedRef s"
  "playerFacingRef (fold collisionPair ps s) = playerFacingRef s"
  "keysRef (fold collisionPair ps s) = keysRef s"
  "cameraXRef (fold collisionPair ps s) = cameraXRef s"
  "movingPlatformRef (fold collisionPair ps s) = movingPlatformRef s"
  "movingPlatformAIRef (fold collisionPair ps s) = movingPlatformAIRef s"
  "jumpStrengthRef (fold collisionPair ps s) = jumpStrengthRef s"
  "jumpWasDownRef (fold collisionPair ps s) = jumpWasDownRef s"
  "viewportWRef (fold collisionPair ps s) = viewportWRef s"
  "viewportHRef (fold collisionPair ps s) = viewportHRef s"
  "gameStateRef (fold collisionPair ps s) = gameStateRef s"
  "gameState (fold collisionPair ps s) = gameState s"
  by (induction ps arbitrary: s; simp)+

lemma collisionStart_frame [simp]:
  "bodies (collisionStart fr s) = bodies s"
  "nextId (collisionStart fr s) = nextId s"
  "torso (collisionStart fr s) = torso s"
  "head (collisionStart fr s) = head s"
  "playerRef (collisionStart fr s) = playerRef s"
  "playerHeadRef (collisionStart fr s) = playerHeadRef s"
  "playerGroundedRef (collisionStart fr s) = playerGroundedRef s"
  "playerFacingRef (collisionStart fr s) = playerFacingRef s"
  "keysRef (collisionStart fr s) = keysRef s"
  "cameraXRef (collisionStart fr s) = cameraXRef s"
  "movingPlatformRef (collisionStart fr s) = movingPlatformRef s"
  "movingPlatformAIRef (collisionStart fr s) = movingPlatformAIRef s"
  "jumpStrengthRef (collisionStart fr s) = jumpStrengthRef s"
  "jumpWasDownRef (collisionStart fr s) = jumpWasDownRef s"
  "viewportWRef (collisionStart fr s) = viewportWRef s"
  "viewportHRef (collisionStart fr s) = viewportHRef s"
  "gameStateRef (collisionStart fr s) = gameStateRef s"
  "gameState (collisionStart fr s) = gameState s"
  by (simp_all add: collisionStart_def)

lemma fold_cleanup_frame [simp]:
  "bodies (fold (\<lambda>p a. if isOutOfBounds a p then worldRemove p a else a) ps s) = bodies s"
  "nextId (fold (\<lambda>p a. if isOutOfBounds a p then worldRemove p a else a) ps s) = nextId s"
  "torso (fold (\<lambda>p a. if isOutOfBounds a p then worldRemove p a else a) ps s) = torso s"
  "head (fold (\<lambda>p a. if isOutOfBounds a p then worldRemove p a else a) ps s) = head s"
  "playerRef (fold (\<lambda>p a. if isOutOfBounds a p then worldRemove p a else a) ps s) = playerRef s"
  "playerHeadRef (fold (\<lambda>p a. if isOutOfBounds a p then worldRemove p a else a) ps s) = playerHeadRef s"
  "playerGroundedRef (fold (\<lambda>p a. if isOutOfBounds a p then worldRemove p a else a) ps s) = playerGroundedRef s"
  "playerFacingRef (fold (\<lambda>p a. if isOutOfBounds a p then worldRemove p a else a) ps s) = playerFacingRef s"
  "keysRef (fold (\<lambda>p a. if isOutOfBounds a p then worldRemove p a else a) ps s) = keysRef s"
  "cameraXRef (fold (\<lambda>p a. if isOutOfBounds a p then worldRemove p a else a) ps s) = cameraXRef s"
  "monstersRef (fold (\<lambda>p a. if isOutOfBounds a p then worldRemove p a else a) ps s) = monstersRef s"
  "monsterAIRef (fold (\<lambda>p a. if isOutOfBounds a p then worldRemove p a else a) ps s) = monsterAIRef s"
  "monsterStyleSeedRef (fold (\<lambda>p a. if isOutOfBounds a p then worldRemove p a else a) ps s) = monsterStyleSeedRef s"
  "projectilesRef (fold (\<lambda>p a. if isOutOfBounds a p then worldRemove p a else a) ps s) = projectilesRef s"
  "movingPlatformRef (fold (\<lambda>p a. if isOutOfBounds a p then worldRemove p a else a) ps s) = movingPlatformRef s"
  "movingPlatformAIRef (fold (\<lambda>p a. if isOutOfBounds a p then worldRemove p a else a) ps s) = movingPlatformAIRef s"
  "jumpStrengthRef (fold (\<lambda>p a. if isOutOfBounds a p then worldRemove p a else a) ps s) = jumpStrengthRef s"
  "jumpWasDownRef (fold (\<lambda>p a. if isOutOfBounds a p then worldRemove p a else a) ps s) = jumpWasDownRef s"
  "viewportWRef (fold (\<lambda>p a. if isOutOfBounds a p then worldRemove p a else a) ps s) = viewportWRef s"
  "viewportHRef (fold (\<lambda>p a. if isOutOfBounds a p then worldRemove p a else a) ps s) = viewportHRef s"
  "gameStateRef (fold (\<lambda>p a. if isOutOfBounds a p then worldRemove p a else a) ps s) = gameStateRef s"
  "gameState (fold (\<lambda>p a. if isOutOfBounds a p then worldRemove p a else a) ps s) = gameState s"
  "pendingGameState (fold (\<lambda>p a. if isOutOfBounds a p then worldRemove p a else a) ps s) = pendingGameState s"
  by (induction ps arbitrary: s; simp add: worldRemove_def)+

lemma cleanupProjectiles_frame [simp]:
  "bodies (cleanupProjectiles s) = bodies s"
  "nextId (cleanupProjectiles s) = nextId s"
  "torso (cleanupProjectiles s) = torso s"
  "head (cleanupProjectiles s) = head s"
  "playerRef (cleanupProjectiles s) = playerRef s"
  "playerHeadRef (cleanupProjectiles s) = playerHeadRef s"
  "playerGroundedRef (cleanupProjectiles s) = playerGroundedRef s"
  "playerFacingRef (cleanupProjectiles s) = playerFacingRef s"
  "keysRef (cleanupProjectiles s) = keysRef s"
  "cameraXRef (cleanupProjectiles s) = cameraXRef s"
  "monstersRef (cleanupProjectiles s) = monstersRef s"
  "monsterAIRef (cleanupProjectiles s) = monsterAIRef s"
  "monsterStyleSeedRef (cleanupProjectiles s) = monsterStyleSeedRef s"
  "movingPlatformRef (cleanupProjectiles s) = movingPlatformRef s"
  "movingPlatformAIRef (cleanupProjectiles s) = movingPlatformAIRef s"
  "jumpStrengthRef (cleanupProjectiles s) = jumpStrengthRef s"
  "jumpWasDownRef (cleanupProjectiles s) = jumpWasDownRef s"
  "viewportWRef (cleanupProjectiles s) = viewportWRef s"
  "viewportHRef (cleanupProjectiles s) = viewportHRef s"
  "gameStateRef (cleanupProjectiles s) = gameStateRef s"
  "gameState (cleanupProjectiles s) = gameState s"
  "pendingGameState (cleanupProjectiles s) = pendingGameState s"
  by (simp_all add: cleanupProjectiles_def Let_def)

lemma fallCheck_frame [simp]:
  "bodies (fallCheck pl s) = bodies s"
  "world (fallCheck pl s) = world s"
  "nextId (fallCheck pl s) = nextId s"
  "torso (fallCheck pl s) = torso s"
  "head (fallCheck pl s) = head s"
  "playerRef (fallCheck pl s) = playerRef s"
  "playerHeadRef (fallCheck pl s) = playerHeadRef s"
  "playerGroundedRef (fallCheck pl s) = playerGroundedRef s"
  "playerFacingRef (fallCheck pl s) = playerFacingRef s"
  "keysRef (fallCheck pl s) = keysRef s"
  "cameraXRef (fallCheck pl s) = cameraXRef s"
  "monstersRef (fallCheck pl s) = monstersRef s"
  "monsterAIRef (fallCheck pl s) = monsterAIRef s"
  "monsterStyleSeedRef (fallCheck pl s) = monsterStyleSeedRef s"
  "projectilesRef (fallCheck pl s) = projectilesRef s"
  "movingPlatformRef (fallCheck pl s) = movingPlatformRef s"
  "movingPlatformAIRef (fallCheck pl s) = movingPlatformAIRef s"
  "jumpStrengthRef (fallCheck pl s) = jumpStrengthRef s"
  "jumpWasDownRef (fallCheck pl s) = jumpWasDownRef s"
  "viewportWRef (fallCheck pl s) = viewportWRef s"
  "viewportHRef (fallCheck pl s) = viewportHRef s"
  "gameStateRef (fallCheck pl s) = gameStateRef s"
  "gameState (fallCheck pl s) = gameState s"
  by (simp_all add: fallCheck_def matter_defs)

lemma cameraStep_frame [simp]:
  "bodies (cameraStep pl s) = bodies s"
  "world (cameraStep pl s) = world s"
  "nextId (cameraStep pl s) = nextId s"
  "torso (cameraStep pl s) = torso s"
  "head (cameraStep pl s) = head s"
  "playerRef (cameraStep pl s) = playerRef s"
  "playerHeadRef (cameraStep pl s) = playerHeadRef s"
  "playerGroundedRef (cameraStep pl s) = playerGroundedRef s"
  "playerFacingRef (cameraStep pl s) = playerFacingRef s"
  "keysRef (cameraStep pl s) = keysRef s"
  "monstersRef (cameraStep pl s) = monstersRef s"
  "monsterAIRef (cameraStep pl s) = monsterAIRef s"
  "monsterStyleSeedRef (cameraStep pl s) = monsterStyleSeedRef s"
  "projectilesRef (cameraStep pl s) = projectilesRef s"
  "movingPlatformRef (cameraStep pl s) = movingPlatformRef s"
  "movingPlatformAIRef (cameraStep pl s) = movingPlatformAIRef s"
  "jumpStrengthRef (cameraStep pl s) = jumpStrengthRef s"
  "jumpWasDownRef (cameraStep pl s) = jumpWasDownRef s"
  "viewportWRef (cameraStep pl s) = viewportWRef s"
  "viewportHRef (cameraStep pl s) = viewportHRef s"
  "gameStateRef (cameraStep pl s) = gameStateRef s"
  "gameState (cameraStep pl s) = gameState s"
  "pendingGameState (cameraStep pl s) = pendingGameState s"
  by (simp_all add: cameraStep_def Let_def)

lemma handleKeyDown_frame [simp]:
  "bodies (handleKeyDown code s) = bodies s"
  "world (handleKeyDown code s) = world s"
  "nextId (handleKeyDown code s) = nextId s"
  "torso (handleKeyDown code s) = torso s"
  "head (handleKeyDown code s) = head s"
  "playerRef (handleKeyDown code s) = playerRef s"
  "playerHeadRef (handleKeyDown code s) = playerHeadRef s"
  "playerGroundedRef (handleKeyDown code s) = playerGroundedRef s"
  "playerFacingRef (handleKeyDown code s) = playerFacingRef s"
  "cameraXRef (handleKeyDown code s) = cameraXRef s"
  "monstersRef (handleKeyDown code s) = monstersRef s"
  "monsterAIRef (handleKeyDown code s) = monsterAIRef s"
  "monsterStyleSeedRef (handleKeyDown code s) = monsterStyleSeedRef s"
  "projectilesRef (handleKeyDown code s) = projectilesRef s"
  "movingPlatformRef (handleKeyDown code s) = movingPlatformRef s"
  "movingPlatformAIRef (handleKeyDown code s) = movingPlatformAIRef s"
  "jumpStrengthRef (handleKeyDown code s) = jumpStrengthRef s"
  "jumpWasDownRef (handleKeyDown code s) = jumpWasDownRef s"
  "viewportWRef (handleKeyDown code s) = viewportWRef s"
  "viewportHRef (handleKeyDown code s) = viewportHRef s"
  "gameStateRef (handleKeyDown code s) = gameStateRef s"
  "gameState (handleKeyDown code s) = gameState s"
  "pendingGameState (handleKeyDown code s) = pendingGameState s"
  by (simp_all add: handleKeyDown_def)

lemma handleKeyUp_frame [simp]:
  "bodies (handleKeyUp code s) = bodies s"
  "world (handleKeyUp code s) = world s"
  "nextId (handleKeyUp code s) = nextId s"
  "torso (handleKeyUp code s) = torso s"
  "head (handleKeyUp code s) = head s"
  "playerRef (handleKeyUp code s) = playerRef s"
  "playerHeadRef (handleKeyUp code s) = playerHeadRef s"
  "playerGroundedRef (handleKeyUp code s) = playerGroundedRef s"
  "playerFacingRef (handleKeyUp code s) = playerFacingRef s"
  "cameraXRef (handleKeyUp code s) = cameraXRef s"
  "monstersRef (handleKeyUp code s) = monstersRef s"
  "monsterAIRef (handleKeyUp code s) = monsterAIRef s"
  "monsterStyleSeedRef (handleKeyUp code s) = monsterStyleSeedRef s"
  "projectilesRef (handleKeyUp code s) = projectilesRef s"
  "movingPlatformRef (handleKeyUp code s) = movingPlatformRef s"
  "movingPlatformAIRef (handleKeyUp code s) = movingPlatformAIRef s"
  "jumpStrengthRef (handleKeyUp code s) = jumpStrengthRef s"
  "jumpWasDownRef (handleKeyUp code s) = jumpWasDownRef s"
  "viewportWRef (handleKeyUp code s) = viewportWRef s"
  "viewportHRef (handleKeyUp code s) = viewportHRef s"
  "gameStateRef (handleKeyUp code s) = gameStateRef s"
  "gameState (handleKeyUp code s) = gameState s"
  "pendingGameState (handleKeyUp code s) = pendingGameState s"
  by (simp_all add: handleKeyUp_def)

lemma jumpStrengthEffect_frame [simp]:
  "bodies (jumpStrengthEffect q s) = bodies s"
  "world (jumpStrengthEffect q s) = world s"
  "nextId (jumpStrengthEffect q s) = nextId s"
  "torso (jumpStrengthEffect q s) = torso s"
  "head (jumpStrengthEffect q s) = head s"
  "playerRef (jumpStrengthEffect q s) = playerRef s"
  "playerHeadRef (jumpStrengthEffect q s) = playerHeadRef s"
  "playerGroundedRef (jumpStrengthEffect q s) = playerGroundedRef s"
  "playerFacingRef (jumpStrengthEffect q s) = playerFacingRef s"
  "keysRef (jumpStrengthEffect q s) = keysRef s"
  "cameraXRef (jumpStrengthEffect q s) = cameraXRef s"
  "monstersRef (jumpStrengthEffect q s) = monstersRef s"
  "monsterAIRef (jumpStrengthEffect q s) = monsterAIRef s"
  "monsterStyleSeedRef (jumpStrengthEffect q s) = monsterStyleSeedRef s"
  "projectilesRef (jumpStrengthEffect q s) = projectilesRef s"
  "movingPlatformRef (jumpStrengthEffect q s) = movingPlatformRef s"
  "movingPlatformAIRef (jumpStrengthEffect q s) = movingPlatformAIRef s"
  "jumpWasDownRef (jumpStrengthEffect q s) = jumpWasDownRef s"
  "viewportWRef (jumpStrengthEffect q s) = viewportWRef s"
  "viewportHRef (jumpStrengthEffect q s) = viewportHRef s"
  "gameStateRef (jumpStrengthEffect q s) = gameStateRef s"
  "gameState (jumpStrengthEffect q s) = gameState s"
  "pendingGameState (jumpStrengthEffect q s) = pendingGameState s"
  by (simp_all add: jumpStrengthEffect_def)

lemma afterUpdate_frame [simp]:
  "bodies (afterUpdate s) = bodies s"
  "nextId (afterUpdate s) = nextId s"
  "torso (afterUpdate s) = torso s"
  "head (afterUpdate s) = head s"
  "playerRef (afterUpdate s) = playerRef s"
  "playerHeadRef (afterUpdate s) = playerHeadRef s"
  "playerGroundedRef (afterUpdate s) = playerGroundedRef s"
  "playerFacingRef (afterUpdate s) = playerFacingRef s"
  "keysRef (afterUpdate s) = keysRef s"
  "monstersRef (afterUpdate s) = monstersRef s"
  "monsterAIRef (afterUpdate s) = monsterAIRef s"
  "monsterStyleSeedRef (afterUpdate s) = monsterStyleSeedRef s"
  "movingPlatformRef (afterUpdate s) = movingPlatformRef s"
  "movingPlatformAIRef (afterUpdate s) = movingPlatformAIRef s"
  "jumpStrengthRef (afterUpdate s) = jumpStrengthRef s"
  "jumpWasDownRef (afterUpdate s) = jumpWasDownRef s"
  "viewportWRef (afterUpdate s) = viewportWRef s"
  "viewportHRef (afterUpdate s) = viewportHRef s"
  "gameStateRef (afterUpdate s) = gameStateRef s"
  "gameState (afterUpdate s) = gameState s"
  by (simp_all add: afterUpdate_def Let_def split: option.split)

subsection \<open>Labels and positions are only set when a body is created\<close>

lemma createProjectile_old [simp]:
  "b \<noteq> nextId s \<Longrightarrow> bodies (createProjectile s) b = bodies s b"
  by (simp add: createProjectile_def matter_defs Let_def split: option.split)

lemma fireStep_old [simp]:
  "b \<noteq> nextId s \<Longrightarrow> bodies (fireStep s) b = bodies s b"
  by (simp add: fireStep_def Let_def)

lemma fireStep_jumpDown [simp]: "jumpDown (fireStep s) = jumpDown s"
  by (simp add: fireStep_def jumpDown_def Let_def)

lemma moveStep_body [simp]:
  "label (bodies (moveStep pl fr s) b) = label (bodies s b)"
  "position (bodies (moveStep pl fr s) b) = position (bodies s b)"
  "velocity (bodies (moveStep pl fr s) b) =
     (if b = pl \<and> axis s = 0 \<and> \<not> \<bar>X (velocity (bodies s pl))\<bar> > 0.02 \<and> playerGroundedRef s
      then \<lparr>X = 0, Y = Y (velocity (bodies s pl))\<rparr> else velocity (bodies s b))"
  by (simp_all add: moveStep_def Let_def matter_defs)

lemma clampStep_body [simp]:
  "label (bodies (clampStep pl s) b) = label (bodies s b)"
  "position (bodies (clampStep pl s) b) = position (bodies s b)"
  by (simp_all add: clampStep_def matter_defs)

lemma jumpStep_body [simp]:
  "label (bodies (jumpStep pl s) b) = label (bodies s b)"
  "position (bodies (jumpStep pl s) b) = position (bodies s b)"
  by (simp_all add: jumpStep_def Let_def matter_defs)

lemma movePhase_body [simp]:
  "b \<noteq> nextId s \<Longrightarrow> label (bodies (movePhase pl fr s) b) = label (bodies s b)"
  "b \<noteq> nextId s \<Longrightarrow> position (bodies (movePhase pl fr s) b) = position (bodies s b)"
  by (simp_all add: movePhase_def)

lemma playerController_body [simp]:
  "b \<noteq> nextId s \<Longrightarrow> label (bodies (playerController fr s) b) = label (bodies s b)"
  "b \<noteq> nextId s \<Longrightarrow> position (bodies (playerController fr s) b) = position (bodies s b)"
  by (simp_all add: playerController_def split: option.split)

lemma patrolRule_body [simp]:
  "label (snd (patrolRule ai m)) = label m"
  "position (snd (patrolRule ai m)) = position m"
  by (simp_all add: patrolRule_def Let_def)

lemma flyingRule_body [simp]:
  "label (flyingRule fr mid pb ai m) = label m"
  "position (flyingRule fr mid pb ai m) = position m"
  by (simp_all add: flyingRule_def Let_def)

lemma monsterStep_body [simp]:
  "label (bodies (monsterStep fr pl m s) b) = label (bodies s b)"
  "position (bodies (monsterStep fr pl m s) b) = position (bodies s b)"
  by (simp_all add: monsterStep_def Let_def split: option.split MonsterAIKind.split prod.split)
     (metis patrolRule_body snd_conv)+

lemma fold_monsterStep_body [simp]:
  "label (bodies (fold (monsterStep fr pl) ms s) b) = label (bodies s b)"
  "position (bodies (fold (monsterStep fr pl) ms s) b) = position (bodies s b)"
  by (induction ms arbitrary: s; simp)+

lemma platformStep_body [simp]:
  "label (bodies (platformStep s) b) = label (bodies s b)"
  "position (bodies (platformStep s) b) = position (bodies s b)"
  by (simp_all add: platformStep_def Let_def matter_defs split: option.split)

lemma aiController_body [simp]:
  "label (bodies (aiController fr s) b) = label (bodies s b)"
  "position (bodies (aiController fr s) b) = position (bodies s b)"
  by (simp_all add: aiController_def split: option.split)

subsection \<open>The mounted component\<close>

lemma segmentCount_eq: "segmentCount = 9"
  by (simp add: segmentCount_def LEVEL_LENGTH_def segmentWidth_def)

lemmas mount_defs = mount_def setupWorld_def gameStateEffect_def jumpStrengthEffect_def
  initialRefs_def groundSegments_def segmentCount_eq boundaryWalls_def platforms_def
  platformSpecs_def spikes_def spikePositions_def wallsAndGate_def createBody_def worldAdd_def
  registerMonster_def Let_def upt_rec

lemma newBody_sel [simp]:
  "label (newBody l px py sens) = l"
  "position (newBody l px py sens) = \<lparr>X = px, Y = py\<rparr>"
  "velocity (newBody l px py sens) = \<lparr>X = 0, Y = 0\<rparr>"
  "force (newBody l px py sens) = \<lparr>X = 0, Y = 0\<rparr>"
  "isSensor (newBody l px py sens) = sens"
  by (simp_all add: newBody_def)

lemma mount_eval:
  "mount p win =
     \<lparr>bodies = (\<lambda>_. newBody [] 0 0 False)
        (0 := newBody ''ground'' 450 575 False,
         1 := newBody ''ground'' 1350 575 False,
         2 := newBody ''ground'' 2250 575 False,
         3 := newBody ''ground'' 3150 575 False,
         4 := newBody ''ground'' 4050 575 False,
         5 := newBody ''ground'' 4950 575 False,
         6 := newBody ''ground'' 5850 575 False,
         7 := newBody ''ground'' 6750 575 False,
         8 := newBody ''ground'' 7650 575 False,
         9 := newBody ''boundary'' (- 25) 300 False,
         10 := newBody ''boundary'' 8025 300 False,
         11 := newBody ''platform'' 800 450 False,
         12 := newBody ''platform'' 1400 360 False,
         13 := newBody ''platform'' 1900 400 False,
         14 := newBody ''platform'' 2600 430 False,
         15 := newBody ''platform'' 3300 340 False,
         16 := newBody ''platform'' 4200 390 False,
         17 := newBody ''platform'' 5000 320 False,
         18 := newBody ''platform'' 5800 400 False,
         19 := newBody ''platform'' 6600 360 False,
         20 := newBody ''movingPlatform'' 3600 280 False,
         21 := newBody ''spike'' 1100 550 False,
         22 := newBody ''spike'' 2100 550 False,
         23 := newBody ''spike'' 2950 550 False,
         24 := newBody ''spike'' 4550 550 False,
         25 := newBody ''spike'' 5450 550 False,
         26 := newBody ''spike'' 6250 550 False,
         27 := newBody ''spike'' 7100 550 False,
         28 := newBody ''wall'' 2400 490 False,
         29 := newBody ''wall'' 4700 420 False,
         30 := newBody ''gate'' 7670 460 False,
         31 := newBody ''gate'' 7810 460 False,
         32 := newBody ''gate'' 7740 370 False,
         33 := newBody ''gate'' 7850 350 False,
         34 := newBody ''goal'' 7740 460 True,
         35 := newBody ''monster'' 1200 520 False,
         36 := newBody ''monster'' 3350 310 False,
         37 := newBody ''monster'' 5600 240 False,
         38 := newBody ''Rectangle Body'' 120 520 False,
         39 := newBody ''Circle Body'' 120 496 False),
      world = [0, 1, 2, 3, 4, 5, 6, 7, 8, 9, 10, 38, 39, 11, 12, 13, 14, 15, 16, 17, 18, 19, 20, 21, 22, 23, 24, 25, 26, 27, 28, 29, 30, 31, 32, 33, 34, 35, 36, 37],
      nextId = 40, torso = 38, head = 39, playerRef = Some 38, playerHeadRef = Some 39,
      playerGroundedRef = False, playerFacingRef = 1, keysRef = (\<lambda>_. False), cameraXRef = 0,
      monstersRef = [35, 36, 37],
      monsterAIRef =
        [(35, \<lparr>kind = patrol, originX = 1200, originY = 520, rangeX = 240, speed = 2.2, dir = 1,
            chaseRadius = None, hoverAmp = None, hoverFreq = None\<rparr>),
         (36, \<lparr>kind = patrol, originX = 3350, originY = 310, rangeX = 180, speed = 1.9, dir = - 1,
            chaseRadius = None, hoverAmp = None, hoverFreq = None\<rparr>),
         (37, \<lparr>kind = flying, originX = 5600, originY = 240, rangeX = 0, speed = 2.6, dir = 1,
            chaseRadius = Some 340, hoverAmp = Some 22, hoverFreq = Some 0.0022\<rparr>)],
      monsterStyleSeedRef = [(35, 141552), (36, 150853), (37, 160154)],
      projectilesRef = [],
      movingPlatformRef = Some 20,
      movingPlatformAIRef = Some \<lparr>pfOriginX = 3600, pfRange = 120, pfSpeed = 1.1, pfDir = 1\<rparr>,
      jumpStrengthRef = effectiveJump p, jumpWasDownRef = False,
      viewportWRef = (case widthProp p of None \<Rightarrow> X win | Some w \<Rightarrow> w),
      viewportHRef = (case heightProp p of None \<Rightarrow> Y win | Some h \<Rightarrow> h),
      gameStateRef = playing, gameState = playing, pendingGameState = []\<rparr>"
  by (simp add: mount_defs WORLD_HEIGHT_def GROUND_HEIGHT_def PLAYER_HEIGHT_def
        LEVEL_LENGTH_def GOAL_X_def segmentWidth_def One_nat_def [symmetric] del: One_nat_def)

lemma mount_refs [simp]:
  "torso (mount p win) = 38"
  "head (mount p win) = 39"
  "playerRef (mount p win) = Some 38"
  "playerHeadRef (mount p win) = Some 39"
  "nextId (mount p win) = 40"
  "world (mount p win) =
     [0, 1, 2, 3, 4, 5, 6, 7, 8, 9, 10, 38, 39, 11, 12, 13, 14, 15, 16, 17, 18, 19, 20, 21, 22,
      23, 24, 25, 26, 27, 28, 29, 30, 31, 32, 33, 34, 35, 36, 37]"
  "monstersRef (mount p win) = [35, 36, 37]"
  "map fst (monsterAIRef (mount p win)) = [35, 36, 37]"
  "map fst (monsterStyleSeedRef (mount p win)) = [35, 36, 37]"
  "projectilesRef (mount p win) = []"
  "movingPlatformRef (mount p win) = Some 20"
  "keysRef (mount p win) = (\<lambda>_. False)"
  "jumpWasDownRef (mount p win) = False"
  "playerFacingRef (mount p win) = 1"
  "jumpStrengthRef (mount p win) = effectiveJump p"
  "gameStateRef (mount p win) = playing"
  "gameState (mount p win) = playing"
  "pendingGameState (mount p win) = []"
  by (simp_all add: mount_eval)

lemma mount_bodies [simp]:
  "bodies (mount p win) 0 = newBody ''ground'' 450 575 False"
  "bodies (mount p win) 21 = newBody ''spike'' 1100 550 False"
  "bodies (mount p win) 34 = newBody ''goal'' 7740 460 True"
  "bodies (mount p win) 35 = newBody ''monster'' 1200 520 False"
  "bodies (mount p win) 36 = newBody ''monster'' 3350 310 False"
  "bodies (mount p win) 37 = newBody ''monster'' 5600 240 False"
  "bodies (mount p win) 38 = newBody ''Rectangle Body'' 120 520 False"
  "bodies (mount p win) 39 = newBody ''Circle Body'' 120 496 False"
  by (simp_all add: mount_eval)

section \<open>The game state over a run\<close>

lemma playerHit_terminal [simp]:
  "gameStateRef s \<noteq> playing \<Longrightarrow> playerHit b s = s"
  by (simp add: playerHit_def)




lemma fallCheck_terminal [simp]:
  "gameStateRef s \<noteq> playing \<Longrightarrow> fallCheck pl s = s"
  by (simp add: fallCheck_def)


lemma engineUpdate_gs [simp]:
  "gameStateRef (engineUpdate fr s) = gameStateRef s"
  "gameState (engineUpdate fr s) = gameState s"
  by (simp_all add: engineUpdate_def)










section \<open>Jump strength\<close>

text \<open>
  Claim C9. When both \<open>jumpStrength\<close> and the deprecated \<open>jumpHeight\<close> are passed,
  \<open>jumpHeight\<close> is the jump strength in force; when neither is passed it is 22, which is
  above the documented slider range of 10 to 18; and whatever number is passed is stored as
  it is, at mount and on every later change of the props, with no range check.
\<close>

theorem jumpHeight_precedence:
  "jumpStrengthRef (mount \<lparr>widthProp = w, heightProp = h, jumpStrengthProp = Some js, jumpHeightProp = Some jh\<rparr> win) = jh
   \<and> jumpStrengthRef (mount \<lparr>widthProp = w, heightProp = h, jumpStrengthProp = None, jumpHeightProp = None\<rparr> win) = 22
   \<and> (18 :: real) < 22
   \<and> jumpStrengthRef (mount \<lparr>widthProp = w, heightProp = h, jumpStrengthProp = Some js, jumpHeightProp = None\<rparr> win) = js
   \<and> jumpStrengthRef (step (JumpProps \<lparr>widthProp = w, heightProp = h, jumpStrengthProp = a, jumpHeightProp = Some jh\<rparr>) s) = jh
   \<and> jumpStrengthRef (step (JumpProps \<lparr>widthProp = w, heightProp = h, jumpStrengthProp = Some js, jumpHeightProp = None\<rparr>) s) = js"
  by (simp add: effectiveJump_def jumpStrengthOf_def defaultJumpStrength_def jumpStrengthEffect_def)

section \<open>Player controller\<close>

lemma bodies_setVelocity:
  "bodies (setVelocity b v s) = (bodies s)(b := (bodies s b)\<lparr>velocity := v\<rparr>)"
  by (simp add: setVelocity_def updBody_def)

lemma clampStep_bound:
  "\<bar>X (velocity (bodies (clampStep player s) player))\<bar> \<le> maxSpeed s"
  by (auto simp: clampStep_def bodies_setVelocity maxSpeed_def maxRunSpeed_def maxAirSpeed_def)

lemma jumpStep_velocity:
  "velocity (bodies (jumpStep player s) player) =
     (if jumpDown s \<and> \<not> jumpWasDownRef s \<and> playerGroundedRef s
      then \<lparr>X = X (velocity (bodies s player)), Y = - jumpStrengthRef s\<rparr>
      else velocity (bodies s player))"
  by (simp add: jumpStep_def Let_def jumpPressed_def bodies_setVelocity)

lemma fireStep_keys [simp]:
  "k \<noteq> ''KeyK'' \<Longrightarrow> keysRef (fireStep s) k = keysRef s k"
  by (simp add: fireStep_def Let_def)

lemma jumpStep_wasDown [simp]: "jumpWasDownRef (jumpStep player s) = jumpDown s"
  by (simp add: jumpStep_def Let_def matter_defs)

lemma jumpStep_X [simp]:
  "X (velocity (bodies (jumpStep player s) player)) = X (velocity (bodies s player))"
  by (simp add: jumpStep_velocity)

lemma movePhase_jumpDown [simp]: "jumpDown (movePhase player fr s) = jumpDown s"
  by (simp add: movePhase_def jumpDown_def)

lemma jumpStep_jumpDown [simp]: "jumpDown (jumpStep player s) = jumpDown s"
  by (simp add: jumpDown_def)

lemma playerController_jump [simp]:
  "playerRef s = Some player \<Longrightarrow> jumpWasDownRef (playerController fr s) = jumpDown s"
  "jumpDown (playerController fr s) = jumpDown s"
  by (simp_all add: playerController_def split: option.split)

lemma movePhase_grounded:
  "playerGroundedRef (movePhase player fr s) = list_ex (groundHit (fireStep s) player) (rayHits fr)"
  by (simp add: movePhase_def groundStep_def)

lemma engineUpdate_jumpDown [simp]: "jumpDown (engineUpdate fr s) = jumpDown s"
proof -
  have "keysRef (engineUpdate fr s) = keysRef (playerController fr s)"
    by (simp add: engineUpdate_def)
  then have "jumpDown (engineUpdate fr s) = jumpDown (playerController fr s)"
    by (simp add: jumpDown_def)
  then show ?thesis by simp
qed

lemma engineUpdate_jump [simp]:
  "playerRef s = Some player \<Longrightarrow> jumpWasDownRef (engineUpdate fr s) = jumpDown s"
  "playerRef (engineUpdate fr s) = playerRef s"
  by (simp_all add: engineUpdate_def)

text \<open>
  Claim C3. In an update where a jump key is down, was not down at the previous update,
  and the ground ray finds footing, the controller leaves the torso with vertical velocity
  \<open>- jumpStrengthRef\<close> and with the horizontal velocity the movement and clamp code had
  just given it. Without footing, or without the press edge, the jump code changes nothing.
  After any update the was-down flag equals the key state, so the next update never jumps
  unless a key event comes in between: a held key does not jump again.
\<close>

theorem jump_on_press_edge:
  assumes "playerRef s = Some player"
  shows "velocity (bodies (playerController fr s) player) =
           (if jumpDown s \<and> \<not> jumpWasDownRef s \<and> list_ex (groundHit (fireStep s) player) (rayHits fr)
            then \<lparr>X = X (velocity (bodies (movePhase player fr s) player)), Y = - jumpStrengthRef s\<rparr>
            else velocity (bodies (movePhase player fr s) player))
       \<and> jumpWasDownRef (engineUpdate fr s) = jumpDown s
       \<and> jumpDown (engineUpdate fr s) = jumpDown s
       \<and> velocity (bodies (playerController fr' (engineUpdate fr s)) player) =
           velocity (bodies (movePhase player fr' (engineUpdate fr s)) player)"
proof -
  have a: "velocity (bodies (playerController fr s) player) =
           (if jumpDown s \<and> \<not> jumpWasDownRef s \<and> list_ex (groundHit (fireStep s) player) (rayHits fr)
            then \<lparr>X = X (velocity (bodies (movePhase player fr s) player)), Y = - jumpStrengthRef s\<rparr>
            else velocity (bodies (movePhase player fr s) player))"
    using assms by (simp add: playerController_def jumpStep_velocity movePhase_grounded)
  have b: "playerRef (engineUpdate fr s) = Some player"
    using assms by simp
  have c: "velocity (bodies (playerController fr' (engineUpdate fr s)) player) =
           velocity (bodies (movePhase player fr' (engineUpdate fr s)) player)"
    using assms b by (auto simp: playerController_def jumpStep_velocity)
  from a c assms show ?thesis by simp
qed

text \<open>The scenario of the specification: jump strength 18, Space pressed while standing on
  the first ground segment gives \<open>(0, -18)\<close>; with nothing under the ray, no jump.\<close>

theorem jump_on_press_edge_witness:
  "velocity (bodies (playerController (stillFrame [0] [])
       (handleKeyDown ''Space'' (mount demoProps demoWindow))) 38) = \<lparr>X = 0, Y = - 18\<rparr>
   \<and> velocity (bodies (playerController (stillFrame [] [])
       (handleKeyDown ''Space'' (mount demoProps demoWindow))) 38) = \<lparr>X = 0, Y = 0\<rparr>"
proof -
  let ?s = "handleKeyDown ''Space'' (mount demoProps demoWindow)"
  have p: "playerRef ?s = Some 38"
    by (simp add: handleKeyDown_def)
  have k: "\<not> keysRef ?s ''KeyK''" "jumpDown ?s" "\<not> jumpWasDownRef ?s" "jumpStrengthRef ?s = 18"
    by (simp_all add: handleKeyDown_def jumpDown_def effectiveJump_def demoProps_def jumpStrengthOf_def)
  have f: "fireStep ?s = ?s"
    using k by (simp add: fireStep_def)
  have g: "groundHit ?s 38 0"
    by (simp add: groundHit_def handleKeyDown_def)
  have v: "velocity (bodies (movePhase 38 fr ?s) 38) = \<lparr>X = 0, Y = 0\<rparr>" for fr
    by (simp add: movePhase_def f clampStep_def maxSpeed_def maxRunSpeed_def maxAirSpeed_def
          bodies_setVelocity groundStep_def facingStep_def axis_def leftDown_def rightDown_def
          handleKeyDown_def Let_def)
  from jump_on_press_edge [OF p, of "stillFrame [0] []"] jump_on_press_edge [OF p, of "stillFrame [] []"]
  show ?thesis
    using k g by (simp add: f v stillFrame_def)
qed

text \<open>
  Claim C4, as amended. Whatever the keys, the ray hits and the velocity the engine left
  on the torso, when the player controller has run the horizontal speed of the torso is at
  most 9.5 if this update found the player grounded and at most 10.5 if not; the air cap is
  the higher one. This holds in every update of every run, since it holds from every
  state. The clamp sits in \<open>beforeUpdate\<close>: it bounds the velocity the previous engine step
  produced, before the next one integrates.
\<close>

theorem speed_clamped:
  assumes "playerRef s = Some player"
  shows "\<bar>X (velocity (bodies (playerController fr s) player))\<bar>
          \<le> (if playerGroundedRef (playerController fr s) then maxRunSpeed else maxAirSpeed)
         \<and> maxRunSpeed < maxAirSpeed"
proof -
  let ?m = "moveStep player fr (facingStep player (groundStep player fr (fireStep s)))"
  have "\<bar>X (velocity (bodies (clampStep player ?m) player))\<bar> \<le> maxSpeed ?m"
    by (rule clampStep_bound)
  moreover have "maxSpeed ?m = (if playerGroundedRef (clampStep player ?m) then maxRunSpeed else maxAirSpeed)"
    by (simp add: maxSpeed_def)
  ultimately show ?thesis using assms
    by (simp add: playerController_def movePhase_def maxRunSpeed_def maxAirSpeed_def)
qed

text \<open>An instance of the clamp: the engine leaves the torso at 12 units per step over the
  first ground segment, and the controller brings it back to the ground cap.\<close>

theorem speed_clamped_witness:
  "playerRef (physicsStep (pushFrame 38 \<lparr>X = 12, Y = 3\<rparr>) (mount demoProps demoWindow)) = Some 38
   \<and> \<bar>X (velocity (bodies (playerController (stillFrame [0] [])
        (physicsStep (pushFrame 38 \<lparr>X = 12, Y = 3\<rparr>) (mount demoProps demoWindow))) 38))\<bar> \<le> 9.5"
proof -
  let ?s = "physicsStep (pushFrame 38 \<lparr>X = 12, Y = 3\<rparr>) (mount demoProps demoWindow)"
  have p: "playerRef ?s = Some 38"
    by simp
  have f: "fireStep ?s = ?s"
    by (simp add: fireStep_def)
  have g: "groundHit ?s 38 0"
    by (simp add: groundHit_def physicsStep_def pushFrame_def)
  have "playerGroundedRef (playerController (stillFrame [0] []) ?s)"
    using p g by (simp add: playerController_def movePhase_def f groundStep_def stillFrame_def)
  with speed_clamped [OF p, of "stillFrame [0] []"] p show ?thesis
    by (simp add: maxRunSpeed_def)
qed

section \<open>Patrol\<close>

text \<open>
  Claim C5, as amended. The patrol rule sets the direction to -1 when the monster is right
  of \<open>originX + range / 2\<close>, else to +1 when it is left of \<open>originX - range / 2\<close>, else
  leaves it; it sets the horizontal velocity to \<open>speed * dir\<close> with the new direction and
  keeps the vertical velocity. It does not move the monster: the position after the rule is
  the position before it, inside the window or not.
\<close>

theorem patrol_flip_rule:
  "dir (fst (patrolRule ai m)) =
      (if X (position m) > originX ai + rangeX ai / 2 then - 1
       else if X (position m) < originX ai - rangeX ai / 2 then 1 else dir ai)
   \<and> velocity (snd (patrolRule ai m)) =
      \<lparr>X = speed ai * real_of_int (dir (fst (patrolRule ai m))), Y = Y (velocity m)\<rparr>
   \<and> position (snd (patrolRule ai m)) = position m"
  by (simp add: patrolRule_def Let_def)

text \<open>Against claim C5 as stated: the ground patrol (origin 1200, range 240) one step past
  its right edge is still outside \<open>[1080, 1320]\<close> after the rule has run.\<close>

theorem patrol_overshoot:
  "X (position (snd (patrolRule
      \<lparr>kind = patrol, originX = 1200, originY = 520, rangeX = 240, speed = 2.2, dir = 1,
       chaseRadius = None, hoverAmp = None, hoverFreq = None\<rparr>
      (newBody ''monster'' 1321 520 False)))) > 1200 + 240 / 2"
  by (simp add: patrolRule_def Let_def)

section \<open>Flying monster\<close>

lemma clamp_abs: "\<bar>clamp v (- c) c\<bar> \<le> \<bar>c\<bar>"
  unfolding clamp_def max_def min_def by (auto simp: abs_if)

lemma chasing_force [simp]:
  "chasing player ai (m\<lparr>force := f\<rparr>) = chasing player ai m"
  by (simp add: chasing_def)

text \<open>
  Claim C6, as amended. In hover mode (the player is not at a distance strictly between 1
  and the chase radius) the velocity set for the flying monster has, on each axis apart,
  0.06 times the offset to the oscillating target, clamped to \<open>[- speed, speed]\<close>. So each
  component is at most the speed parameter in absolute value; the clamp is per axis, not
  on the length of the vector.
\<close>

theorem hover_velocity_componentwise:
  assumes "\<not> chasing player ai m"
  shows "velocity (flyingRule fr mid player ai m) =
           \<lparr>X = clamp ((originX ai + sin (timestamp fr * 0.001) * 70 - X (position m)) * 0.06)
                  (- speed ai) (speed ai),
            Y = clamp ((originY ai
                        + sin (timestamp fr * (case hoverFreq ai of None \<Rightarrow> 0.002 | Some f \<Rightarrow> f))
                          * (case hoverAmp ai of None \<Rightarrow> 18 | Some a \<Rightarrow> a)
                        - Y (position m)) * 0.06)
                  (- speed ai) (speed ai)\<rparr>
       \<and> \<bar>X (velocity (flyingRule fr mid player ai m))\<bar> \<le> \<bar>speed ai\<bar>
       \<and> \<bar>Y (velocity (flyingRule fr mid player ai m))\<bar> \<le> \<bar>speed ai\<bar>"
  using assms by (simp add: flyingRule_def hoverVelocity_def Let_def clamp_abs)

lemma far_not_chasing:
  assumes "0 \<le> r" "r\<^sup>2 \<le> (X (position player) - X (position m))\<^sup>2 + (Y (position player) - Y (position m))\<^sup>2"
    "chaseRadius ai = Some r"
  shows "\<not> chasing player ai m"
proof -
  have "r \<le> hypot (X (position player) - X (position m)) (Y (position player) - Y (position m))"
    unfolding hypot_def using assms(1,2) by (rule_tac real_le_rsqrt)
  then show ?thesis using assms(3) by (simp add: chasing_def Let_def)
qed

lemma hover_example_far:
  "\<not> chasing (newBody ''Rectangle Body'' 5200 520 False)
       \<lparr>kind = flying, originX = 5600, originY = 240, rangeX = 0, speed = 2.6, dir = 1,
        chaseRadius = Some 340, hoverAmp = Some 22, hoverFreq = Some 0.0022\<rparr>
       (newBody ''monster'' 5700 340 False)"
  by (rule far_not_chasing [where r = 340]) (simp_all add: power2_eq_square)

text \<open>Against claim C6 as stated: the flyer 100 units right of and 100 below its origin,
  the player 500 units away, is in hover mode and is given the velocity \<open>(-2.6, -2.6)\<close>,
  whose length is above the speed parameter 2.6.\<close>

theorem hover_speed_exceeds:
  "\<not> chasing (newBody ''Rectangle Body'' 5200 520 False)
       \<lparr>kind = flying, originX = 5600, originY = 240, rangeX = 0, speed = 2.6, dir = 1,
        chaseRadius = Some 340, hoverAmp = Some 22, hoverFreq = Some 0.0022\<rparr>
       (newBody ''monster'' 5700 340 False)
   \<and> velocity (flyingRule (stillFrame [] []) 37 (newBody ''Rectangle Body'' 5200 520 False)
       \<lparr>kind = flying, originX = 5600, originY = 240, rangeX = 0, speed = 2.6, dir = 1,
        chaseRadius = Some 340, hoverAmp = Some 22, hoverFreq = Some 0.0022\<rparr>
       (newBody ''monster'' 5700 340 False)) = \<lparr>X = - 2.6, Y = - 2.6\<rparr>
   \<and> hypot (- 2.6) (- 2.6) > 2.6"
proof -
  have "(2.6::real) < sqrt ((- 2.6)\<^sup>2 + (- 2.6)\<^sup>2)"
    by (rule real_less_rsqrt) (simp add: power2_eq_square)
  then show ?thesis
    using hover_example_far
    by (simp add: flyingRule_def hoverVelocity_def Let_def stillFrame_def clamp_def hypot_def)
qed

text \<open>An instance of hover mode: one unit off the target on both axes, no clamping.\<close>

theorem hover_velocity_componentwise_witness:
  "\<not> chasing (newBody ''Rectangle Body'' 5200 520 False)
       \<lparr>kind = flying, originX = 5600, originY = 240, rangeX = 0, speed = 2.6, dir = 1,
        chaseRadius = Some 340, hoverAmp = Some 22, hoverFreq = Some 0.0022\<rparr>
       (newBody ''monster'' 5601 241 False)
   \<and> velocity (flyingRule (stillFrame [] []) 37 (newBody ''Rectangle Body'' 5200 520 False)
       \<lparr>kind = flying, originX = 5600, originY = 240, rangeX = 0, speed = 2.6, dir = 1,
        chaseRadius = Some 340, hoverAmp = Some 22, hoverFreq = Some 0.0022\<rparr>
       (newBody ''monster'' 5601 241 False)) = \<lparr>X = - 0.06, Y = - 0.06\<rparr>"
proof -
  have h: "\<not> chasing (newBody ''Rectangle Body'' 5200 520 False)
       \<lparr>kind = flying, originX = 5600, originY = 240, rangeX = 0, speed = 2.6, dir = 1,
        chaseRadius = Some 340, hoverAmp = Some 22, hoverFreq = Some 0.0022\<rparr>
       (newBody ''monster'' 5601 241 False)"
    by (rule far_not_chasing [where r = 340]) (simp_all add: power2_eq_square)
  from hover_velocity_componentwise [OF h, of "stillFrame [] []" 37] h show ?thesis
    by (simp add: stillFrame_def clamp_def)
qed

section \<open>Registry consistency over a run\<close>

lemma monsterStep_keys [simp]:
  "map fst (monsterAIRef (monsterStep fr pl m s)) = map fst (monsterAIRef s)"
proof (cases "map_of (monsterAIRef s) m")
  case None
  then show ?thesis by (simp add: monsterStep_def)
next
  case (Some ai)
  then have "m \<in> fst ` set (monsterAIRef s)"
    by (metis map_of_eq_None_iff option.distinct(1))
  with Some show ?thesis
    by (simp add: monsterStep_def Let_def update_keys split: MonsterAIKind.split prod.split)
qed

lemma fold_monsterStep_keys [simp]:
  "map fst (monsterAIRef (fold (monsterStep fr pl) ms s)) = map fst (monsterAIRef s)"
  by (induction ms arbitrary: s) simp_all

lemma aiController_keys [simp]:
  "map fst (monsterAIRef (aiController fr s)) = map fst (monsterAIRef s)"
  by (simp add: aiController_def split: option.split)












section \<open>Firing\<close>

lemma createProjectile_spawn:
  assumes "playerRef s = Some pl"
  shows "projectilesRef (createProjectile s) = projectilesRef s @ [nextId s]"
    and "world (createProjectile s) = world s @ [nextId s]"
    and "nextId (createProjectile s) = Suc (nextId s)"
    and "bodies (createProjectile s) (nextId s) =
           \<lparr>label = ''projectile'',
            position = \<lparr>X = X (position (bodies s pl)) + real_of_int (playerFacingRef s) * 24,
                        Y = Y (position (bodies s pl))\<rparr>,
            velocity = \<lparr>X = real_of_int (playerFacingRef s) * 15, Y = 0\<rparr>,
            force = \<lparr>X = 0, Y = 0\<rparr>, isSensor = False\<rparr>"
  using assms by (simp_all add: createProjectile_def matter_defs Let_def PLAYER_WIDTH_def)

lemma fireStep_fire:
  assumes "playerRef s = Some pl" "keysRef s ''KeyK''"
  shows "projectilesRef (fireStep s) = projectilesRef s @ [nextId s]"
    and "world (fireStep s) = world s @ [nextId s]"
    and "nextId (fireStep s) = Suc (nextId s)"
    and "label (bodies (fireStep s) (nextId s)) = ''projectile''"
    and "position (bodies (fireStep s) (nextId s)) =
           \<lparr>X = X (position (bodies s pl)) + real_of_int (playerFacingRef s) * 24,
            Y = Y (position (bodies s pl))\<rparr>"
    and "velocity (bodies (fireStep s) (nextId s)) = \<lparr>X = real_of_int (playerFacingRef s) * 15, Y = 0\<rparr>"
    and "\<not> keysRef (fireStep s) ''KeyK''"
  using assms by (simp_all add: fireStep_def Let_def createProjectile_spawn)

lemma fireStep_idle:
  "\<not> keysRef s ''KeyK'' \<Longrightarrow> fireStep s = s"
  by (simp add: fireStep_def)

lemma playerController_fire:
  assumes "playerRef s = Some pl" "keysRef s ''KeyK''"
  shows "projectilesRef (playerController fr s) = projectilesRef s @ [nextId s]"
    and "world (playerController fr s) = world s @ [nextId s]"
    and "nextId (playerController fr s) = Suc (nextId s)"
    and "label (bodies (playerController fr s) (nextId s)) = ''projectile''"
    and "position (bodies (playerController fr s) (nextId s)) =
           \<lparr>X = X (position (bodies s pl)) + real_of_int (playerFacingRef s) * 24,
            Y = Y (position (bodies s pl))\<rparr>"
    and "\<not> keysRef (playerController fr s) ''KeyK''"
  using assms
  by (simp_all add: playerController_def movePhase_def fireStep_fire [OF assms])

lemma playerController_idle:
  assumes "\<not> keysRef s ''KeyK''"
  shows "projectilesRef (playerController fr s) = projectilesRef s"
    and "world (playerController fr s) = world s"
    and "nextId (playerController fr s) = nextId s"
    and "\<not> keysRef (playerController fr s) ''KeyK''"
  using assms
  by (simp_all add: playerController_def movePhase_def fireStep_idle split: option.split)

lemma engineUpdate_refs [simp]:
  "nextId (engineUpdate fr s) = nextId (playerController fr s)"
  "keysRef (engineUpdate fr s) = keysRef (playerController fr s)"
  "playerRef (engineUpdate fr s) = playerRef s"
  by (simp_all add: engineUpdate_def)

text \<open>
  Claim C7, where the code departs from it. Fire is consumed once per keydown event, not
  once per press: \<open>handleKeyDown\<close> sets the flag again on every keydown, also on the repeats
  the browser sends while the key stays held, and the fire code has no was-down flag (the
  jump code has one). From the mounted state, a keydown of KeyK, an update, a second
  keydown of KeyK with no keyup in between, and a second update create two bodies (ids 40
  and 41, so the next free id is 42): both updates call \<open>createProjectile\<close>, and the second
  appends projectile 41 to the tracking array. The frames, props and window are arbitrary.
\<close>

theorem fire_again_without_release:
  "nextId (mount p win) = 40
   \<and> nextId (run [KeyDown ''KeyK'', Update fr1, KeyDown ''KeyK'', Update fr2] (mount p win)) = 42
   \<and> projectilesRef (playerController fr1 (run [KeyDown ''KeyK''] (mount p win))) = [40]
   \<and> projectilesRef (playerController fr2 (run [KeyDown ''KeyK'', Update fr1, KeyDown ''KeyK''] (mount p win)))
       = projectilesRef (run [KeyDown ''KeyK'', Update fr1, KeyDown ''KeyK''] (mount p win)) @ [41]"
proof -
  let ?s1 = "handleKeyDown ''KeyK'' (mount p win)"
  let ?s2 = "engineUpdate fr1 ?s1"
  let ?s3 = "handleKeyDown ''KeyK'' ?s2"
  have a1: "playerRef ?s1 = Some 38" "keysRef ?s1 ''KeyK''" "nextId ?s1 = 40" "projectilesRef ?s1 = []"
    by (simp_all add: handleKeyDown_def)
  have "nextId (playerController fr1 ?s1) = Suc (nextId ?s1)"
    using a1(1,2) by (rule playerController_fire(3))
  with a1 have n2: "nextId ?s2 = 41"
    by simp
  have a3: "playerRef ?s3 = Some 38" "keysRef ?s3 ''KeyK''" "nextId ?s3 = 41"
    using n2 a1 by (simp_all add: handleKeyDown_def)
  have "nextId (playerController fr2 ?s3) = Suc (nextId ?s3)"
    using a3(1,2) by (rule playerController_fire(3))
  with a3 have n4: "nextId (engineUpdate fr2 ?s3) = 42"
    by simp
  have "projectilesRef (playerController fr1 ?s1) = projectilesRef ?s1 @ [nextId ?s1]"
    using a1(1,2) by (rule playerController_fire(1))
  with a1 have p1: "projectilesRef (playerController fr1 ?s1) = [40]"
    by simp
  have "projectilesRef (playerController fr2 ?s3) = projectilesRef ?s3 @ [nextId ?s3]"
    using a3(1,2) by (rule playerController_fire(1))
  with a3 have p3: "projectilesRef (playerController fr2 ?s3) = projectilesRef ?s3 @ [41]"
    by simp
  from n4 p1 p3 show ?thesis by (simp add: run_def)
qed

section \<open>Several terminal contacts in one collision event\<close>

text \<open>
  Claim C2, where the code departs from it. The guard reads \<open>gameStateRef.current\<close>, which
  only the effect after a React commit writes; \<open>setGameState\<close> does not change it. So within
  one \<open>collisionStart\<close> event every player-terminal pair passes the guard and calls
  \<open>setGameState\<close>, and the last call decides. From the mounted state, the pairs torso and
  flying monster, then torso and goal sensor, queue \<open>gameOver\<close> and then \<open>won\<close>, and the
  commit leaves \<open>won\<close>, not the first-applied \<open>gameOver\<close>. Two spike contacts (torso and head)
  queue \<open>gameOver\<close> twice and leave \<open>gameOver\<close>.
\<close>

theorem last_terminal_pair_wins:
  "pendingGameState (engineUpdate (stillFrame [] [(38, 37), (38, 34)]) (mount demoProps demoWindow))
     = [gameOver, won]
   \<and> gameState (run [Update (stillFrame [] [(38, 37), (38, 34)]), Commit] (mount demoProps demoWindow)) = won
   \<and> pendingGameState (engineUpdate (stillFrame [] [(38, 21), (39, 21)]) (mount demoProps demoWindow))
     = [gameOver, gameOver]
   \<and> gameState (run [Update (stillFrame [] [(38, 21), (39, 21)]), Commit] (mount demoProps demoWindow)) = gameOver"
  by (simp add: run_def engineUpdate_def afterUpdate_def collisionStart_def collisionPair_def
        playerHit_def fallCheck_def commit_def physicsStep_def stillFrame_def setGameState_def
        gameStateEffect_def Let_def WORLD_HEIGHT_def)

section \<open>The clamp runs before the engine step\<close>

lemma monsterStep_other:
  "b \<noteq> m \<Longrightarrow> bodies (monsterStep fr pl m s) b = bodies s b"
  by (simp add: monsterStep_def Let_def split: option.split MonsterAIKind.split prod.split)

lemma fold_monsterStep_other:
  "b \<notin> set ms \<Longrightarrow> bodies (fold (monsterStep fr pl) ms s) b = bodies s b"
  by (induction ms arbitrary: s) (simp_all add: monsterStep_other)

lemma platformStep_other:
  "movingPlatformRef s \<noteq> Some b \<Longrightarrow> bodies (platformStep s) b = bodies s b"
  by (auto simp: platformStep_def Let_def matter_defs split: option.split)

lemma aiController_other:
  "b \<notin> set (monstersRef s) \<Longrightarrow> movingPlatformRef s \<noteq> Some b \<Longrightarrow>
   bodies (aiController fr s) b = bodies s b"
  by (simp add: aiController_def platformStep_other fold_monsterStep_other split: option.split)

text \<open>
  Against claim C4 as stated (speed after the physics step): the torso runs right at the
  ground cap 9.5 over the first ground segment with ArrowRight held. The controller applies
  the acceleration force and leaves the velocity at 9.5; the clamp has already run when the
  engine integrates that force, so after the update the player is grounded and faster than
  10. The next controller pass clamps again.
\<close>

theorem speed_after_engine_step:
  "playerGroundedRef (engineUpdate (forceFrame 38 [0])
      (handleKeyDown ''ArrowRight''
        (physicsStep (pushFrame 38 \<lparr>X = 9.5, Y = 0\<rparr>) (mount demoProps demoWindow))))
   \<and> X (velocity (bodies (playerController (forceFrame 38 [0])
      (handleKeyDown ''ArrowRight''
        (physicsStep (pushFrame 38 \<lparr>X = 9.5, Y = 0\<rparr>) (mount demoProps demoWindow)))) 38)) = 9.5
   \<and> X (velocity (bodies (engineUpdate (forceFrame 38 [0])
      (handleKeyDown ''ArrowRight''
        (physicsStep (pushFrame 38 \<lparr>X = 9.5, Y = 0\<rparr>) (mount demoProps demoWindow)))) 38)) > 10"
proof -
  let ?s = "handleKeyDown ''ArrowRight''
        (physicsStep (pushFrame 38 \<lparr>X = 9.5, Y = 0\<rparr>) (mount demoProps demoWindow))"
  let ?fr = "forceFrame 38 [0]"
  have p: "playerRef ?s = Some 38"
    by simp
  have g: "playerGroundedRef (groundStep 38 ?fr ?s)"
    by (simp add: groundStep_def forceFrame_def groundHit_def physicsStep_def pushFrame_def)
  have c: "velocity (bodies (playerController ?fr ?s) 38) = \<lparr>X = 9.5, Y = 0\<rparr>"
    "force (bodies (playerController ?fr ?s) 38) = \<lparr>X = 0.0032, Y = 0\<rparr>"
    "playerGroundedRef (playerController ?fr ?s)"
    using g
    by (simp_all add: playerController_def movePhase_def fireStep_idle jumpStep_def jumpPressed_def
          jumpDown_def clampStep_def maxSpeed_def maxRunSpeed_def moveStep_def facingStep_def
          groundStep_def axis_def rightDown_def leftDown_def accelPerMass_def matter_defs
          handleKeyDown_def Let_def forceFrame_def physicsStep_def pushFrame_def)
  have a: "bodies (aiController ?fr (playerController ?fr ?s)) 38 = bodies (playerController ?fr ?s) 38"
    by (rule aiController_other) simp_all
  have "bodies (engineUpdate ?fr ?s) 38 = physics ?fr (bodies (aiController ?fr (playerController ?fr ?s))) 38"
    by (simp add: engineUpdate_def physicsStep_def)
  with a c have v: "X (velocity (bodies (engineUpdate ?fr ?s) 38)) = 9.5 * (1 - 0.003) + 0.0032 * (1000 / 60)\<^sup>2"
    by (simp add: forceFrame_def)
  have gr: "playerGroundedRef (engineUpdate ?fr ?s)"
    using c(3) by (simp add: engineUpdate_def)
  from v gr c(1) show ?thesis
    by (simp add: power2_eq_square)
qed

section \<open>Projectile hits monster\<close>

lemma filter_neq_absent: "x \<notin> set xs \<Longrightarrow> filter (\<lambda>y. y \<noteq> x) xs = xs"
  by (induction xs) auto

lemma length_filter_neq:
  "distinct xs \<Longrightarrow> x \<in> set xs \<Longrightarrow> Suc (length (filter (\<lambda>y. y \<noteq> x) xs)) = length xs"
  by (induction xs) (auto simp: filter_neq_absent)

lemma stillFrame_sel [simp]:
  "rayHits (stillFrame hits ps) = hits"
  "pairs (stillFrame hits ps) = ps"
  "physics (stillFrame hits ps) = (\<lambda>b. b)"
  by (simp_all add: stillFrame_def)

lemma collisionPair_hit:
  assumes "label (bodies s p) = ''projectile''" "label (bodies s m) = ''monster''"
  shows "collisionPair (p, m) s = removeHit p m s" "collisionPair (m, p) s = removeHit p m s"
  using assms by (simp_all add: collisionPair_def Let_def)

text \<open>
  Claim C8, as amended. A collision pair of a projectile and a monster, in either order,
  takes the projectile branch. When both bodies are still tracked and in the world (each
  once), that branch removes exactly one projectile and exactly one monster from the tracking
  arrays and exactly these two bodies from the world; afterwards neither is tracked or in
  the world, the monster has no AI record and no style seed, and nothing is queued for the
  game state: the pair is not classified any further.
\<close>

theorem projectile_hit_removes_tracked:
  assumes "label (bodies s p) = ''projectile''" "label (bodies s m) = ''monster''"
    and "p \<in> set (projectilesRef s)" "distinct (projectilesRef s)"
    and "m \<in> set (monstersRef s)" "distinct (monstersRef s)"
    and "p \<in> set (world s)" "m \<in> set (world s)" "distinct (world s)"
  shows "collisionPair (p, m) s = removeHit p m s \<and> collisionPair (m, p) s = removeHit p m s
       \<and> length (projectilesRef (removeHit p m s)) + 1 = length (projectilesRef s)
       \<and> length (monstersRef (removeHit p m s)) + 1 = length (monstersRef s)
       \<and> length (world (removeHit p m s)) + 2 = length (world s)
       \<and> set (projectilesRef (removeHit p m s)) = set (projectilesRef s) - {p}
       \<and> set (monstersRef (removeHit p m s)) = set (monstersRef s) - {m}
       \<and> set (world (removeHit p m s)) = set (world s) - {p, m}
       \<and> map_of (monsterAIRef (removeHit p m s)) m = None
       \<and> map_of (monsterStyleSeedRef (removeHit p m s)) m = None
       \<and> pendingGameState (removeHit p m s) = pendingGameState s
       \<and> gameState (removeHit p m s) = gameState s"
proof -
  have ne: "p \<noteq> m"
    using assms(1,2) by auto
  have w: "world (removeHit p m s) = remove1 m (remove1 p (world s))"
    by (simp add: removeHit_def Let_def matter_defs)
  have wl: "length (world (removeHit p m s)) + 2 = length (world s)"
  proof -
    have "m \<in> set (remove1 p (world s))"
      using assms(8) ne by simp
    then have "length (remove1 m (remove1 p (world s))) = length (remove1 p (world s)) - 1"
      by (simp add: length_remove1)
    moreover have "length (remove1 p (world s)) = length (world s) - 1"
      using assms(7) by (simp add: length_remove1)
    moreover have "2 \<le> length (world s)"
    proof -
      have "card {p, m} \<le> card (set (world s))"
        using assms(7,8) by (intro card_mono) auto
      then show ?thesis
        using ne assms(9) by (simp add: distinct_card)
    qed
    ultimately show ?thesis unfolding w by simp
  qed
  have ws: "set (world (removeHit p m s)) = set (world s) - {p, m}"
    unfolding w using assms(9) by (auto simp: set_remove1_eq)
  have pl: "length (projectilesRef (removeHit p m s)) + 1 = length (projectilesRef s)"
    using assms(3,4) by (simp add: removeHit_def Let_def matter_defs length_filter_neq)
  have ml: "length (monstersRef (removeHit p m s)) + 1 = length (monstersRef s)"
    using assms(5,6) by (simp add: removeHit_def Let_def matter_defs length_filter_neq)
  have ps: "set (projectilesRef (removeHit p m s)) = set (projectilesRef s) - {p}"
    by (auto simp: removeHit_def Let_def matter_defs)
  have ms: "set (monstersRef (removeHit p m s)) = set (monstersRef s) - {m}"
    by (auto simp: removeHit_def Let_def matter_defs)
  have ai: "map_of (monsterAIRef (removeHit p m s)) m = None"
    by (simp add: removeHit_def Let_def matter_defs delete_conv')
  have sd: "map_of (monsterStyleSeedRef (removeHit p m s)) m = None"
    by (simp add: removeHit_def Let_def matter_defs delete_conv')
  from collisionPair_hit [OF assms(1,2)] wl ws pl ml ps ms ai sd show ?thesis
    by simp
qed

lemma fired_state:
  "projectilesRef (playerController (stillFrame [0] []) (handleKeyDown ''KeyK'' (mount demoProps demoWindow))) = [40]"
  "monstersRef (playerController (stillFrame [0] []) (handleKeyDown ''KeyK'' (mount demoProps demoWindow))) = [35, 36, 37]"
  "world (playerController (stillFrame [0] []) (handleKeyDown ''KeyK'' (mount demoProps demoWindow))) = world (mount demoProps demoWindow) @ [40]"
  "label (bodies (playerController (stillFrame [0] []) (handleKeyDown ''KeyK'' (mount demoProps demoWindow))) 40) = ''projectile''"
  "label (bodies (playerController (stillFrame [0] []) (handleKeyDown ''KeyK'' (mount demoProps demoWindow))) 35) = ''monster''"
  "label (bodies (playerController (stillFrame [0] []) (handleKeyDown ''KeyK'' (mount demoProps demoWindow))) 37) = ''monster''"
  "map fst (monsterAIRef (playerController (stillFrame [0] []) (handleKeyDown ''KeyK'' (mount demoProps demoWindow)))) = [35, 36, 37]"
proof -
  let ?s1 = "handleKeyDown ''KeyK'' (mount demoProps demoWindow)"
  have a: "playerRef ?s1 = Some 38" "keysRef ?s1 ''KeyK''" "nextId ?s1 = 40" "projectilesRef ?s1 = []"
    by (simp_all add: handleKeyDown_def)
  show "projectilesRef (playerController (stillFrame [0] []) (handleKeyDown ''KeyK'' (mount demoProps demoWindow))) = [40]"
    using playerController_fire(1) [OF a(1,2), of "stillFrame [0] []"] a by simp
  show "monstersRef (playerController (stillFrame [0] []) (handleKeyDown ''KeyK'' (mount demoProps demoWindow))) = [35, 36, 37]"
    by simp
  show "world (playerController (stillFrame [0] []) (handleKeyDown ''KeyK'' (mount demoProps demoWindow))) = world (mount demoProps demoWindow) @ [40]"
    using playerController_fire(2) [OF a(1,2), of "stillFrame [0] []"] a by simp
  show "label (bodies (playerController (stillFrame [0] []) (handleKeyDown ''KeyK'' (mount demoProps demoWindow))) 40) = ''projectile''"
    using playerController_fire(4) [OF a(1,2), of "stillFrame [0] []"] a by simp
  show "label (bodies (playerController (stillFrame [0] []) (handleKeyDown ''KeyK'' (mount demoProps demoWindow))) 35) = ''monster''" "label (bodies (playerController (stillFrame [0] []) (handleKeyDown ''KeyK'' (mount demoProps demoWindow))) 37) = ''monster''"
    using a by simp_all
  show "map fst (monsterAIRef (playerController (stillFrame [0] []) (handleKeyDown ''KeyK'' (mount demoProps demoWindow)))) = [35, 36, 37]"
    by simp
qed

text \<open>An instance: the player fires once from the mounted state and the projectile (body 40)
  meets the ground patrol (body 35).\<close>

theorem projectile_hit_removes_tracked_witness:
  "projectilesRef (collisionPair (40, 35) (playerController (stillFrame [0] []) (handleKeyDown ''KeyK'' (mount demoProps demoWindow)))) = []
   \<and> monstersRef (collisionPair (40, 35) (playerController (stillFrame [0] []) (handleKeyDown ''KeyK'' (mount demoProps demoWindow)))) = [36, 37]
   \<and> length (world (collisionPair (40, 35) (playerController (stillFrame [0] []) (handleKeyDown ''KeyK'' (mount demoProps demoWindow))))) + 2 = length (world (playerController (stillFrame [0] []) (handleKeyDown ''KeyK'' (mount demoProps demoWindow))))
   \<and> map_of (monsterAIRef (collisionPair (40, 35) (playerController (stillFrame [0] []) (handleKeyDown ''KeyK'' (mount demoProps demoWindow))))) 35 = None"
proof -
  have d: "distinct (world (playerController (stillFrame [0] []) (handleKeyDown ''KeyK'' (mount demoProps demoWindow))))" "40 \<in> set (world (playerController (stillFrame [0] []) (handleKeyDown ''KeyK'' (mount demoProps demoWindow))))" "35 \<in> set (world (playerController (stillFrame [0] []) (handleKeyDown ''KeyK'' (mount demoProps demoWindow))))"
    by (simp_all add: fired_state)
  have h: "label (bodies (playerController (stillFrame [0] []) (handleKeyDown ''KeyK'' (mount demoProps demoWindow))) 40) = ''projectile''" "label (bodies (playerController (stillFrame [0] []) (handleKeyDown ''KeyK'' (mount demoProps demoWindow))) 35) = ''monster''"
    "40 \<in> set (projectilesRef (playerController (stillFrame [0] []) (handleKeyDown ''KeyK'' (mount demoProps demoWindow))))" "distinct (projectilesRef (playerController (stillFrame [0] []) (handleKeyDown ''KeyK'' (mount demoProps demoWindow))))"
    "35 \<in> set (monstersRef (playerController (stillFrame [0] []) (handleKeyDown ''KeyK'' (mount demoProps demoWindow))))" "distinct (monstersRef (playerController (stillFrame [0] []) (handleKeyDown ''KeyK'' (mount demoProps demoWindow))))"
    by (simp_all add: fired_state)
  from projectile_hit_removes_tracked [OF h d(2,3,1)]
  show ?thesis
    by (simp add: removeHit_def Let_def matter_defs fired_state)
qed

text \<open>Against claim C8 as stated: the one projectile meets the ground patrol and the flyer
  in the same collision event. The first pair removes the projectile and one monster; the
  second pair removes a monster and no projectile.\<close>

theorem second_pair_removes_no_projectile:
  "projectilesRef (playerController (stillFrame [0] []) (handleKeyDown ''KeyK'' (mount demoProps demoWindow))) = [40] \<and> monstersRef (playerController (stillFrame [0] []) (handleKeyDown ''KeyK'' (mount demoProps demoWindow))) = [35, 36, 37]
   \<and> projectilesRef (collisionPair (40, 35) (playerController (stillFrame [0] []) (handleKeyDown ''KeyK'' (mount demoProps demoWindow)))) = []
   \<and> monstersRef (collisionPair (40, 35) (playerController (stillFrame [0] []) (handleKeyDown ''KeyK'' (mount demoProps demoWindow)))) = [36, 37]
   \<and> projectilesRef (collisionPair (40, 37) (collisionPair (40, 35) (playerController (stillFrame [0] []) (handleKeyDown ''KeyK'' (mount demoProps demoWindow))))) = []
   \<and> monstersRef (collisionPair (40, 37) (collisionPair (40, 35) (playerController (stillFrame [0] []) (handleKeyDown ''KeyK'' (mount demoProps demoWindow))))) = [36]
   \<and> collisionStart (stillFrame [] [(40, 35), (40, 37)]) (playerController (stillFrame [0] []) (handleKeyDown ''KeyK'' (mount demoProps demoWindow)))
       = collisionPair (40, 37) (collisionPair (40, 35) (playerController (stillFrame [0] []) (handleKeyDown ''KeyK'' (mount demoProps demoWindow))))"
  by (simp add: collisionStart_def collisionPair_def Let_def fired_state
        removeHit_def matter_defs)

end
